theory Spec2Isabelle
  imports Complex_Main
begin

section \<open>Football player style clustering: reducer, scaler, cluster model, similarity search\<close>

text \<open>
  The development embeds the algorithmic core of \<^verbatim>\<open>api.py\<close>: the two style-dimension
  reducers, request validation, the name lookup, the similarity ranking and the loading of
  the model artifacts. The scaler and the cluster model are objects of scikit-learn, and
  the string test of the name lookup is a method of pandas; the repository only calls them,
  so they are modelled from the specification and marked as such, or taken as a parameter.

  Numbers are real numbers: the float64 arithmetic of numpy is idealised to exact
  arithmetic. In the handler of the similarity search a cell of an attribute column always
  holds a number and the test of a name cell always answers. Two parts of the program are
  given a second time without these simplifications: the reducers over cells that may be
  missing (NaN), and the name lookup with a library call that may raise. A cell of a name
  column holds a string or is missing.
\<close>

section \<open>The program\<close>

subsection \<open>Raw attribute records and the single-record reducer\<close>

text \<open>A raw attribute record is a Python dict from attribute name to number.\<close>

type_synonym attributes = "string \<rightharpoonup> real"

text \<open>\<^verbatim>\<open>dict.get(key, default)\<close>.\<close>

definition dict_get :: "attributes \<Rightarrow> string \<Rightarrow> real \<Rightarrow> real" where
  "dict_get attributes attr dflt = (case attributes attr of None \<Rightarrow> dflt | Some v \<Rightarrow> v)"

text \<open>\<^verbatim>\<open>np.mean\<close> of a non-empty list of numbers.\<close>

definition np_mean :: "real list \<Rightarrow> real" where
  "np_mean values = sum_list values / real (length values)"

text \<open>
  The table \<^verbatim>\<open>style_dims\<close> of \<^verbatim>\<open>create_style_dimensions\<close> (api.py, lines 97-108). A Python
  dict iterates in insertion order, so the table is an association list.
\<close>

definition style_dims :: "(string \<times> string list) list" where
  "style_dims =
    [(''pace'', [''movement_acceleration'', ''movement_sprint_speed'']),
     (''dribbling'', [''skill_dribbling'', ''skill_ball_control'',
                      ''movement_agility'', ''movement_balance'']),
     (''creativity'', [''attacking_short_passing'', ''skill_long_passing'',
                       ''mentality_vision'', ''skill_curve'']),
     (''finishing'', [''attacking_finishing'', ''power_shot_power'',
                      ''mentality_positioning'']),
     (''defense'', [''mentality_interceptions'', ''defending_standing_tackle'',
                    ''defending_sliding_tackle'', ''mentality_aggression'']),
     (''physicality'', [''power_strength'', ''power_stamina'', ''power_jumping''])]"

text \<open>
  \<^verbatim>\<open>create_style_dimensions\<close> (api.py, lines 95-115): for every dimension, the mean of
  \<^verbatim>\<open>attributes.get(attr, 50)\<close> over the dimension's attributes.
\<close>

definition create_style_dimensions :: "attributes \<Rightarrow> real list" where
  "create_style_dimensions attributes =
     map (\<lambda>(dimension, attrs). np_mean (map (\<lambda>attr. dict_get attributes attr 50) attrs))
       style_dims"

subsection \<open>The player table and the batch reducer\<close>

text \<open>
  The player table is a pandas DataFrame read from a CSV file (\<^verbatim>\<open>player_data\<close>). The code
  reads numbers from attribute columns and strings from name columns only, so a row is
  given by two views: \<open>num r c\<close> is the number of row \<open>r\<close> in the attribute column \<open>c\<close>, and
  \<open>str r c\<close> is the string in the name column \<open>c\<close>, \<open>None\<close> for a missing value. Only the
  columns listed in \<open>columns\<close> exist; the views are read at existing columns only.
\<close>

record row =
  num :: "string \<Rightarrow> real"
  str :: "string \<Rightarrow> string option"

record dataframe =
  columns :: "string list"
  rows :: "row list"

text \<open>
  \<^verbatim>\<open>row.to_dict()\<close>: the keys are the table's columns. The reducer looks up attribute
  names only, so the numeric view of the row is all it reads.
\<close>

definition to_dict :: "dataframe \<Rightarrow> row \<Rightarrow> attributes" where
  "to_dict df r = (\<lambda>key. if key \<in> set (columns df) then Some (num r key) else None)"

text \<open>
  The table \<^verbatim>\<open>style_dims\<close> of \<^verbatim>\<open>create_style_dimensions_batch\<close> (api.py, lines 120-138):
  each dimension lists the prefixed attribute names and their unprefixed alternatives.
\<close>

definition style_dims_batch :: "(string \<times> string list) list" where
  "style_dims_batch =
    [(''pace'', [''movement_acceleration'', ''movement_sprint_speed'',
                 ''acceleration'', ''sprint_speed'']),
     (''dribbling'', [''skill_dribbling'', ''skill_ball_control'',
                      ''movement_agility'', ''movement_balance'',
                      ''dribbling'', ''ball_control'', ''agility'', ''balance'']),
     (''creativity'', [''attacking_short_passing'', ''skill_long_passing'',
                       ''mentality_vision'', ''skill_curve'',
                       ''short_passing'', ''long_passing'', ''vision'', ''curve'']),
     (''finishing'', [''attacking_finishing'', ''power_shot_power'',
                      ''mentality_positioning'',
                      ''finishing'', ''shot_power'', ''positioning'']),
     (''defense'', [''mentality_interceptions'', ''defending_standing_tackle'',
                    ''defending_sliding_tackle'', ''mentality_aggression'',
                    ''interceptions'', ''standing_tackle'', ''sliding_tackle'',
                    ''aggression'']),
     (''physicality'', [''power_strength'', ''power_stamina'', ''power_jumping'',
                        ''strength'', ''stamina'', ''jumping''])]"

text \<open>\<^verbatim>\<open>np.array(feature_matrix).T\<close> for a matrix of six columns of \<open>n\<close> entries each.\<close>

definition np_transpose :: "nat \<Rightarrow> 'a list list \<Rightarrow> 'a list list" where
  "np_transpose n feature_matrix = map (\<lambda>i. map (\<lambda>col. col ! i) feature_matrix) [0..<n]"

text \<open>
  \<^verbatim>\<open>create_style_dimensions_batch\<close> (api.py, lines 118-148): per dimension, the row-wise
  mean over the candidate columns the table has, or 50 in every row when it has none.
\<close>

definition create_style_dimensions_batch :: "dataframe \<Rightarrow> real list list" where
  "create_style_dimensions_batch df =
     (let feature_matrix =
            map (\<lambda>(dimension, attrs).
                   let available_attrs = filter (\<lambda>col. col \<in> set (columns df)) attrs
                   in if available_attrs \<noteq> []
                      then map (\<lambda>r. np_mean (map (num r) available_attrs)) (rows df)
                      else replicate (length (rows df)) 50)
              style_dims_batch
      in np_transpose (length (rows df)) feature_matrix)"

subsection \<open>Attribute cells that may be missing\<close>

text \<open>
  A cell of a CSV file can be empty, and pandas reads an empty cell of a numeric column as
  NaN. The two reducers treat NaN differently, so for their comparison they are given a
  second time, over cells that are a number or NaN (\<open>None\<close>). A table with missing cells
  is a table as above together with \<open>missing\<close>, which says for a row index and a column
  whether the cell is missing; the number \<open>num\<close> gives for a missing cell is not read.
  Where no cell is missing, the reducers below return the numbers of the reducers above
  (lemmas \<open>batch_nan_present\<close> and \<open>single_nan_present\<close>).
\<close>

definition cell :: "dataframe \<Rightarrow> (nat \<Rightarrow> string \<Rightarrow> bool) \<Rightarrow> nat \<Rightarrow> string \<Rightarrow> real option" where
  "cell df missing i col = (if missing i col then None else Some (num (rows df ! i) col))"

text \<open>\<^verbatim>\<open>row.to_dict()\<close> for the row of index \<open>i\<close>: a missing cell is a key whose value is NaN.\<close>

definition to_dict_nan ::
  "dataframe \<Rightarrow> (nat \<Rightarrow> string \<Rightarrow> bool) \<Rightarrow> nat \<Rightarrow> (string \<rightharpoonup> real option)" where
  "to_dict_nan df missing i =
     (\<lambda>key. if key \<in> set (columns df) then Some (cell df missing i key) else None)"

text \<open>\<^verbatim>\<open>np.mean\<close> of a non-empty list: NaN as soon as one entry is NaN.\<close>

definition np_mean_nan :: "real option list \<Rightarrow> real option" where
  "np_mean_nan values = map_option np_mean (those values)"

text \<open>
  \<^verbatim>\<open>create_style_dimensions\<close> (api.py, lines 95-115) on a record whose values may be NaN:
  \<^verbatim>\<open>attributes.get(attr, 50)\<close> returns the NaN of a key that is present.
\<close>

definition create_style_dimensions_nan :: "(string \<rightharpoonup> real option) \<Rightarrow> real option list" where
  "create_style_dimensions_nan attributes =
     map (\<lambda>(dimension, attrs).
            np_mean_nan (map (\<lambda>attr. case attributes attr of None \<Rightarrow> Some 50 | Some v \<Rightarrow> v) attrs))
       style_dims"

text \<open>
  One row of \<^verbatim>\<open>DataFrame.mean(axis=1)\<close>: pandas skips the NaN entries and averages the
  others; the mean of a row with no number is NaN.
\<close>

definition pandas_row_mean :: "real option list \<Rightarrow> real option" where
  "pandas_row_mean values =
     (let present = List.map_filter (\<lambda>v. v) values
      in if present = [] then None else Some (np_mean present))"

text \<open>\<^verbatim>\<open>create_style_dimensions_batch\<close> (api.py, lines 118-148) on a table with missing cells.\<close>

definition create_style_dimensions_batch_nan ::
  "dataframe \<Rightarrow> (nat \<Rightarrow> string \<Rightarrow> bool) \<Rightarrow> real option list list" where
  "create_style_dimensions_batch_nan df missing =
     (let feature_matrix =
            map (\<lambda>(dimension, attrs).
                   let available_attrs = filter (\<lambda>col. col \<in> set (columns df)) attrs
                   in if available_attrs \<noteq> []
                      then map (\<lambda>i. pandas_row_mean (map (cell df missing i) available_attrs))
                             [0..<length (rows df)]
                      else replicate (length (rows df)) (Some 50))
              style_dims_batch
      in np_transpose (length (rows df)) feature_matrix)"

subsection \<open>The fitted scaler\<close>

text \<open>
  The scaler is scikit-learn's \<^verbatim>\<open>StandardScaler\<close>, created in \<^verbatim>\<open>train_model.py\<close> (line 52),
  pickled, and loaded by \<^verbatim>\<open>api.py\<close>. Its fitted state is the per-column mean and scale.
\<close>

record scaler_state =
  scaler_mean :: "real list"
  scaler_scale :: "real list"

text \<open>
  Modelled from the spec: \<^verbatim>\<open>scaler.transform\<close>, whose code is the library's and not in the
  repository. Section 4.2: output = (input - per-column mean) / per-column scale, columns
  independent. A vector whose length differs from the fitted column count is refused
  (\<open>None\<close> stands for the exception).
\<close>

definition transform :: "scaler_state \<Rightarrow> real list \<Rightarrow> real list option" where
  "transform sc x =
     (if length x = length (scaler_mean sc) \<and> length x = length (scaler_scale sc)
      then Some (map (\<lambda>(v, m, s). (v - m) / s) (zip x (zip (scaler_mean sc) (scaler_scale sc))))
      else None)"

subsection \<open>Requests, responses and request validation\<close>

text \<open>\<^verbatim>\<open>SimilarPlayerRequest\<close> (api.py, lines 54-57), after validation.\<close>

record similar_player_request =
  player_name :: string
  top_n :: int

text \<open>
  The body of a request as received: a field is present with a value of its type, or absent.
\<close>

record raw_similar_player_request =
  raw_player_name :: "string option"
  raw_top_n :: "int option"

datatype field_error =
  Missing string | Too_short string | Below_minimum string | Above_maximum string

text \<open>
  The outcomes of a request that is not answered: 404 and 500 are the \<^verbatim>\<open>HTTPException\<close>s
  the handlers raise, 422 is the framework's answer to a body that fails validation.
\<close>

datatype http_error = HTTP_404 string | HTTP_422 "field_error list" | HTTP_500

text \<open>\<^verbatim>\<open>player_name: str = Field(..., min_length=1)\<close>: required, at least one character.\<close>

definition check_player_name :: "string option \<Rightarrow> field_error + string" where
  "check_player_name v =
     (case v of
        None \<Rightarrow> Inl (Missing ''player_name'')
      | Some s \<Rightarrow> if length s < 1 then Inl (Too_short ''player_name'') else Inr s)"

text \<open>\<^verbatim>\<open>top_n: int = Field(default=5, ge=1, le=20)\<close>.\<close>

definition check_top_n :: "int option \<Rightarrow> field_error + int" where
  "check_top_n v =
     (case v of
        None \<Rightarrow> Inr 5
      | Some n \<Rightarrow> if n < 1 then Inl (Below_minimum ''top_n'')
                  else if 20 < n then Inl (Above_maximum ''top_n'')
                  else Inr n)"

definition field_errors :: "field_error + 'a \<Rightarrow> field_error list" where
  "field_errors r = (case r of Inl e \<Rightarrow> [e] | Inr v \<Rightarrow> [])"

text \<open>
  Validation of the whole model: every field is checked, and the request is built only
  when no field has an error.
\<close>

definition validate_similar_player_request ::
  "raw_similar_player_request \<Rightarrow> field_error list + similar_player_request" where
  "validate_similar_player_request raw =
     (case (check_player_name (raw_player_name raw), check_top_n (raw_top_n raw)) of
        (Inr s, Inr n) \<Rightarrow> Inr \<lparr>player_name = s, top_n = n\<rparr>
      | (a, b) \<Rightarrow> Inl (field_errors a @ field_errors b))"

subsection \<open>Name lookup\<close>

definition name_columns :: "string list" where
  "name_columns = [''short_name'', ''name'', ''long_name'', ''player_name'']"

text \<open>
  \<^verbatim>\<open>player_data[name_col].str.contains(pat, case=False, na=False)\<close>: one truth value per
  row, false where the cell is missing. The test of one cell against the pattern is the
  library's; it is the parameter \<open>contains\<close> (pattern first, cell second).
\<close>

definition str_contains ::
  "(string \<Rightarrow> string \<Rightarrow> bool) \<Rightarrow> dataframe \<Rightarrow> string \<Rightarrow> string \<Rightarrow> bool list" where
  "str_contains contains df name_col pat =
     map (\<lambda>r. case str r name_col of None \<Rightarrow> False | Some s \<Rightarrow> contains pat s) (rows df)"

text \<open>\<^verbatim>\<open>player_mask.any()\<close>.\<close>

definition mask_any :: "bool list \<Rightarrow> bool" where
  "mask_any player_mask = (True \<in> set player_mask)"

text \<open>
  The loop over \<^verbatim>\<open>name_columns\<close> (api.py, lines 1028-1035), with the loop's variables
  \<^verbatim>\<open>player_mask\<close> and \<^verbatim>\<open>name_col_used\<close> as its state; \<^verbatim>\<open>break\<close> returns at once.
\<close>

fun lookup_loop ::
  "(string \<Rightarrow> string \<Rightarrow> bool) \<Rightarrow> dataframe \<Rightarrow> string \<Rightarrow> string list \<Rightarrow>
   bool list option \<times> string option \<Rightarrow> bool list option \<times> string option" where
  "lookup_loop contains df pat [] (player_mask, name_col_used) = (player_mask, name_col_used)"
| "lookup_loop contains df pat (name_col # rest) (player_mask, name_col_used) =
     (if name_col \<in> set (columns df)
      then (let player_mask' = str_contains contains df name_col pat
            in if mask_any player_mask' then (Some player_mask', Some name_col)
               else lookup_loop contains df pat rest (Some player_mask', name_col_used))
      else lookup_loop contains df pat rest (player_mask, name_col_used))"

text \<open>\<^verbatim>\<open>player_data[player_mask]\<close>: the rows whose mask entry is true, in table order.\<close>

definition masked_rows :: "dataframe \<Rightarrow> bool list \<Rightarrow> row list" where
  "masked_rows df player_mask = map fst (filter snd (zip (rows df) player_mask))"

text \<open>
  Modelled from the spec: the cell test of \<^verbatim>\<open>str.contains\<close>, whose code is the library's.
  Section 4.5: name matching is a case-insensitive substring match. Case is the case of
  the ASCII letters. (The library reads the pattern as a regular expression; for a pattern
  of letters, digits and spaces that is this test.)
\<close>

definition lower_char :: "char \<Rightarrow> char" where
  "lower_char c =
     (case map_of (zip ''ABCDEFGHIJKLMNOPQRSTUVWXYZ'' ''abcdefghijklmnopqrstuvwxyz'') c of
        None \<Rightarrow> c | Some l \<Rightarrow> l)"

fun starts_with :: "'a list \<Rightarrow> 'a list \<Rightarrow> bool" where
  "starts_with [] s = True"
| "starts_with (p # ps) [] = False"
| "starts_with (p # ps) (c # cs) = (p = c \<and> starts_with ps cs)"

fun has_substring :: "'a list \<Rightarrow> 'a list \<Rightarrow> bool" where
  "has_substring pat [] = (pat = [])"
| "has_substring pat (c # cs) = (starts_with pat (c # cs) \<or> has_substring pat cs)"

definition ci_contains :: "string \<Rightarrow> string \<Rightarrow> bool" where
  "ci_contains pat s = has_substring (map lower_char pat) (map lower_char s)"

subsection \<open>Similarity search\<close>

text \<open>\<^verbatim>\<open>np.linalg.norm\<close> of a vector: the Euclidean norm.\<close>

definition l2_norm :: "real list \<Rightarrow> real" where
  "l2_norm v = sqrt (sum_list (map (\<lambda>x. x\<^sup>2) v))"

text \<open>
  \<^verbatim>\<open>np.argsort\<close>: the indices in the order of their values. Equal values keep their index
  order here (a stable sort); numpy's default sort leaves the order of equal values open.
\<close>

definition argsort :: "real list \<Rightarrow> nat list" where
  "argsort ds = sort_key (\<lambda>i. ds ! i) [0..<length ds]"

text \<open>The Python slice \<^verbatim>\<open>xs[1:stop]\<close>; a negative \<^verbatim>\<open>stop\<close> counts from the end.\<close>

definition py_slice_from_1 :: "'a list \<Rightarrow> int \<Rightarrow> 'a list" where
  "py_slice_from_1 xs stop =
     (let n = int (length xs);
          e = (if stop < 0 then max 0 (stop + n) else min stop n)
      in drop 1 (take (nat e) xs))"

text \<open>
  The distances of all table rows to the matched player (api.py, lines 1045-1053): the
  player's row goes through the single-record reducer, the table through the batch
  reducer, both through the scaler; \<open>None\<close> when the scaler refuses its input.
\<close>

definition player_distances :: "scaler_state \<Rightarrow> dataframe \<Rightarrow> row \<Rightarrow> real list option" where
  "player_distances sc df player_row =
     (case transform sc (create_style_dimensions (to_dict df player_row)) of
        None \<Rightarrow> None
      | Some player_scaled \<Rightarrow>
          (case those (map (transform sc) (create_style_dimensions_batch df)) of
             None \<Rightarrow> None
           | Some all_scaled \<Rightarrow>
               Some (map (\<lambda>v. l2_norm (map2 (-) v player_scaled)) all_scaled)))"

text \<open>\<^verbatim>\<open>similar_indices = np.argsort(distances)[1:request.top_n + 1]\<close> (api.py, line 1056).\<close>

definition similar_indices :: "real list \<Rightarrow> int \<Rightarrow> nat list" where
  "similar_indices distances n = py_slice_from_1 (argsort distances) (n + 1)"

definition not_found_detail :: "string \<Rightarrow> string" where
  "not_found_detail name =
     ''Player '' @ [CHR 0x27] @ name @ [CHR 0x27] @ '' not found in dataset''"

text \<open>
  \<^verbatim>\<open>find_similar_players\<close> (api.py, lines 1014-1064) on the loaded table and scaler. The
  404 is raised when no mask was computed or the last mask has no true entry; every other
  exception inside the handler becomes a 500. The names returned are the cells of the
  column the lookup used, a missing cell being \<open>None\<close>; what the response model makes
  of a missing name is left out.
\<close>

definition find_similar_players ::
  "(string \<Rightarrow> string \<Rightarrow> bool) \<Rightarrow> scaler_state \<Rightarrow> dataframe \<Rightarrow> similar_player_request \<Rightarrow>
   http_error + string option list" where
  "find_similar_players contains sc df request =
     (case lookup_loop contains df (player_name request) name_columns (None, None) of
        (None, name_col_used) \<Rightarrow> Inl (HTTP_404 (not_found_detail (player_name request)))
      | (Some player_mask, name_col_used) \<Rightarrow>
          if \<not> mask_any player_mask
          then Inl (HTTP_404 (not_found_detail (player_name request)))
          else (case (masked_rows df player_mask, name_col_used) of
                  (player_row # others, Some col) \<Rightarrow>
                    (case player_distances sc df player_row of
                       None \<Rightarrow> Inl HTTP_500
                     | Some distances \<Rightarrow>
                         Inr (map (\<lambda>i. str (rows df ! i) col)
                                (similar_indices distances (top_n request))))
                | _ \<Rightarrow> Inl HTTP_500))"

text \<open>
  The endpoint \<^verbatim>\<open>POST /similar_players\<close>: the framework validates the body against
  \<^verbatim>\<open>SimilarPlayerRequest\<close> and calls the handler only with a valid request.
\<close>

definition similar_players_endpoint ::
  "(string \<Rightarrow> string \<Rightarrow> bool) \<Rightarrow> scaler_state \<Rightarrow> dataframe \<Rightarrow> raw_similar_player_request \<Rightarrow>
   http_error + string option list" where
  "similar_players_endpoint contains sc df raw =
     (case validate_similar_player_request raw of
        Inl errs \<Rightarrow> Inl (HTTP_422 errs)
      | Inr request \<Rightarrow> find_similar_players contains sc df request)"

subsection \<open>The name lookup with the library call as it is\<close>

text \<open>
  The handler above takes the test of a cell as a function that always answers. The call
  \<^verbatim>\<open>player_data[name_col].str.contains(request.player_name, case=False, na=False)\<close>
  (api.py, line 1030) can also raise: the library reads the query as a regular expression
  and refuses an invalid one, and the accessor \<^verbatim>\<open>.str\<close> refuses a column that holds no
  string. Here the library method is the parameter \<open>series_contains\<close>: from the pattern
  and the cells of a column to the mask, or \<open>None\<close> when the call raises.
\<close>

definition column_cells :: "dataframe \<Rightarrow> string \<Rightarrow> string option list" where
  "column_cells df name_col = map (\<lambda>r. str r name_col) (rows df)"

text \<open>
  The loop of api.py, lines 1028-1035, once more; an exception raised by the call leaves
  the loop (\<open>None\<close>).
\<close>

fun lookup_loop_raising ::
  "(string \<Rightarrow> string option list \<Rightarrow> bool list option) \<Rightarrow> dataframe \<Rightarrow> string \<Rightarrow> string list \<Rightarrow>
   bool list option \<times> string option \<Rightarrow> (bool list option \<times> string option) option" where
  "lookup_loop_raising series_contains df pat [] (player_mask, name_col_used) =
     Some (player_mask, name_col_used)"
| "lookup_loop_raising series_contains df pat (name_col # rest) (player_mask, name_col_used) =
     (if name_col \<in> set (columns df)
      then (case series_contains pat (column_cells df name_col) of
              None \<Rightarrow> None
            | Some player_mask' \<Rightarrow>
                if mask_any player_mask' then Some (Some player_mask', Some name_col)
                else lookup_loop_raising series_contains df pat rest
                       (Some player_mask', name_col_used))
      else lookup_loop_raising series_contains df pat rest (player_mask, name_col_used))"

text \<open>
  The lookup of \<^verbatim>\<open>find_similar_players\<close> (api.py, lines 1023-1041) up to the matched mask
  and the column used, with the answers of the handler when it does not get that far: 404
  from the check after the loop, 500 from \<^verbatim>\<open>except Exception\<close> (api.py, lines 1063-1064)
  for an exception of the call.
\<close>

definition find_player ::
  "(string \<Rightarrow> string option list \<Rightarrow> bool list option) \<Rightarrow> dataframe \<Rightarrow> string \<Rightarrow>
   http_error + bool list \<times> string" where
  "find_player series_contains df pat =
     (case lookup_loop_raising series_contains df pat name_columns (None, None) of
        None \<Rightarrow> Inl HTTP_500
      | Some (None, name_col_used) \<Rightarrow> Inl (HTTP_404 (not_found_detail pat))
      | Some (Some player_mask, name_col_used) \<Rightarrow>
          if \<not> mask_any player_mask then Inl (HTTP_404 (not_found_detail pat))
          else (case name_col_used of
                  None \<Rightarrow> Inl HTTP_500
                | Some col \<Rightarrow> Inr (player_mask, col)))"

text \<open>
  A test of cells that always answers, as a library method that never raises. With it the
  lookup is the one of the handler above (lemma \<open>find_similar_players_via_find_player\<close>).
\<close>

definition never_raising ::
  "(string \<Rightarrow> string \<Rightarrow> bool) \<Rightarrow> string \<Rightarrow> string option list \<Rightarrow> bool list option" where
  "never_raising contains pat cells =
     Some (map (\<lambda>c. case c of None \<Rightarrow> False | Some s \<Rightarrow> contains pat s) cells)"

subsection \<open>Model artifacts and their loading\<close>

text \<open>
  The cluster model is scikit-learn's \<^verbatim>\<open>KMeans\<close>; its fitted state is the list of centroids.
  The label map is the JSON object written by the training script: cluster index as a
  string to style name, one entry per key.
\<close>

record kmeans_model =
  cluster_centers :: "real list list"

type_synonym label_map = "(string \<times> string) list"

text \<open>
  What reading one artifact file gives: its content, \<^verbatim>\<open>FileNotFoundError\<close>, or another
  exception.
\<close>

datatype 'a file_read = Loaded 'a | File_not_found | Other_failure

record model_files =
  scaler_pkl :: "scaler_state file_read"
  kmeans_pkl :: "kmeans_model file_read"
  cluster_labels_json :: "label_map file_read"
  fc26_csv :: "dataframe file_read"

text \<open>The module's global model artifacts (api.py, lines 84-88), \<open>None\<close> at import.\<close>

record app_state =
  scaler :: "scaler_state option"
  kmeans :: "kmeans_model option"
  cluster_labels :: "label_map option"
  player_data :: "dataframe option"

definition initial_state :: app_state where
  "initial_state = \<lparr>scaler = None, kmeans = None, cluster_labels = None, player_data = None\<rparr>"

text \<open>The two \<^verbatim>\<open>except\<close> branches of \<^verbatim>\<open>load_models\<close>; both raise again, so startup fails.\<close>

datatype startup_error = FileNotFoundError | LoadError

definition raised :: "'a file_read \<Rightarrow> startup_error" where
  "raised r = (case r of File_not_found \<Rightarrow> FileNotFoundError | _ \<Rightarrow> LoadError)"

text \<open>
  \<^verbatim>\<open>load_models\<close> (api.py, lines 931-961): the four artifacts are read in order and stored
  in the globals one by one; the first read that raises ends the function with the globals
  assigned so far. The result is the error raised, if any, and the globals.
\<close>

definition load_models :: "model_files \<Rightarrow> app_state \<Rightarrow> startup_error option \<times> app_state" where
  "load_models files g =
     (case scaler_pkl files of
        Loaded sc \<Rightarrow>
          (let g1 = g\<lparr>scaler := Some sc\<rparr> in
           case kmeans_pkl files of
             Loaded km \<Rightarrow>
               (let g2 = g1\<lparr>kmeans := Some km\<rparr> in
                case cluster_labels_json files of
                  Loaded labels \<Rightarrow>
                    (let g3 = g2\<lparr>cluster_labels := Some labels\<rparr> in
                     case fc26_csv files of
                       Loaded table \<Rightarrow> (None, g3\<lparr>player_data := Some table\<rparr>)
                     | r \<Rightarrow> (Some (raised r), g3))
                | r \<Rightarrow> (Some (raised r), g2))
           | r \<Rightarrow> (Some (raised r), g1))
      | r \<Rightarrow> (Some (raised r), g))"

text \<open>\<^verbatim>\<open>models_loaded\<close> of \<^verbatim>\<open>health_check\<close> (api.py, line 975).\<close>

definition models_loaded :: "app_state \<Rightarrow> bool" where
  "models_loaded g = (scaler g \<noteq> None \<and> kmeans g \<noteq> None)"

subsection \<open>Fitting the scaler\<close>

text \<open>
  A training matrix is a list of rows. \<open>matrix_column M j\<close> is its column \<open>j\<close>;
  \<open>n_features\<close> is the number of columns, read off the first row.
\<close>

definition matrix_column :: "real list list \<Rightarrow> nat \<Rightarrow> real list" where
  "matrix_column M j = map (\<lambda>r. r ! j) M"

definition n_features :: "real list list \<Rightarrow> nat" where
  "n_features M = (case M of [] \<Rightarrow> 0 | r # rs \<Rightarrow> length r)"

text \<open>The standard deviation of a column: the root of the mean squared deviation.\<close>

definition column_std :: "real list \<Rightarrow> real" where
  "column_std xs = sqrt (np_mean (map (\<lambda>x. (x - np_mean xs)\<^sup>2) xs))"

text \<open>
  Modelled from the spec: \<^verbatim>\<open>StandardScaler.fit\<close>, whose code is the library's and not in the
  repository (the training script only constructs the scaler, train_model.py line 52, and
  calls it). Section 4.2: the state is the per-column mean and standard deviation over
  the full training matrix, and a column of standard deviation 0 gets the scale 1.
\<close>

definition fit :: "real list list \<Rightarrow> scaler_state" where
  "fit M =
     \<lparr>scaler_mean = map (\<lambda>j. np_mean (matrix_column M j)) [0..<n_features M],
      scaler_scale = map (\<lambda>j. let s = column_std (matrix_column M j)
                               in if s = 0 then 1 else s) [0..<n_features M]\<rparr>"

text \<open>\<^verbatim>\<open>scaler.transform\<close> of a matrix: every row is transformed.\<close>

definition transform_matrix :: "scaler_state \<Rightarrow> real list list \<Rightarrow> real list list option" where
  "transform_matrix sc M = those (map (transform sc) M)"

subsection \<open>Cluster prediction\<close>

text \<open>The Euclidean distance of two vectors of the same length.\<close>

definition euclidean :: "real list \<Rightarrow> real list \<Rightarrow> real" where
  "euclidean x c = l2_norm (map2 (-) x c)"

text \<open>
  The index of the first least entry of a list of distances, scanning from the left:
  \<open>first_min ds best best_d i\<close> has seen the entries before index \<open>i\<close>, of which \<open>best_d\<close> at
  index \<open>best\<close> is the first least, and takes a later entry only when it is strictly less.
\<close>

fun first_min :: "real list \<Rightarrow> nat \<Rightarrow> real \<Rightarrow> nat \<Rightarrow> nat" where
  "first_min [] best best_d i = best"
| "first_min (d # ds) best best_d i =
     (if d < best_d then first_min ds i d (Suc i) else first_min ds best best_d (Suc i))"

text \<open>
  Modelled from the spec: \<^verbatim>\<open>KMeans.predict\<close> for one vector, whose code is the library's and
  not in the repository (the model is constructed at train_model.py line 53 and called at
  api.py line 1002). Section 4.3: the index of the nearest centroid under Euclidean
  distance, ties broken by the lowest index. A model without centroids predicts nothing.
\<close>

definition predict :: "kmeans_model \<Rightarrow> real list \<Rightarrow> nat option" where
  "predict km x =
     (case map (euclidean x) (cluster_centers km) of
        [] \<Rightarrow> None
      | d # ds \<Rightarrow> Some (first_min ds 0 d 1))"

section \<open>Notions used to state the claims\<close>

text \<open>
  The reducer as the specification words it: the mean over the candidate attributes that
  are present in the record, absent ones skipped, and 50 when none is present.
\<close>

definition spec_reduce :: "attributes \<Rightarrow> real list" where
  "spec_reduce attributes =
     map (\<lambda>(dimension, attrs).
            let present = List.map_filter attributes attrs
            in if present = [] then 50 else np_mean present)
       style_dims"

text \<open>
  The table's schema agrees with the single-record reducer on dimension \<open>k\<close> when the
  candidate columns the table has for \<open>k\<close> are exactly the single-record reducer's
  candidates of \<open>k\<close>, or the table has no candidate column of \<open>k\<close> at all.
\<close>

definition schema_agrees :: "dataframe \<Rightarrow> nat \<Rightarrow> bool" where
  "schema_agrees df k =
     (let available_attrs = filter (\<lambda>col. col \<in> set (columns df)) (snd (style_dims_batch ! k))
      in available_attrs = snd (style_dims ! k) \<or> available_attrs = [])"

text \<open>A name column matches a query when the table has it and some row's cell passes the test.\<close>

definition column_matches ::
  "(string \<Rightarrow> string \<Rightarrow> bool) \<Rightarrow> dataframe \<Rightarrow> string \<Rightarrow> string \<Rightarrow> bool" where
  "column_matches contains df pat name_col =
     (name_col \<in> set (columns df) \<and> mask_any (str_contains contains df name_col pat))"

text \<open>
  Row \<open>i\<close> has no missing cell in the candidate columns the table has for dimension \<open>k\<close>.
\<close>

definition no_missing_cell :: "dataframe \<Rightarrow> (nat \<Rightarrow> string \<Rightarrow> bool) \<Rightarrow> nat \<Rightarrow> nat \<Rightarrow> bool" where
  "no_missing_cell df missing i k =
     list_all (\<lambda>col. \<not> missing i col)
       (filter (\<lambda>col. col \<in> set (columns df)) (snd (style_dims_batch ! k)))"

text \<open>
  A name column decides the lookup when the table has it and the library call on it
  either raises or returns a mask with a true entry.
\<close>

definition decides ::
  "(string \<Rightarrow> string option list \<Rightarrow> bool list option) \<Rightarrow> dataframe \<Rightarrow> string \<Rightarrow> string \<Rightarrow> bool" where
  "decides series_contains df pat name_col =
     (name_col \<in> set (columns df) \<and>
      (case series_contains pat (column_cells df name_col) of
         None \<Rightarrow> True
       | Some player_mask \<Rightarrow> mask_any player_mask))"

section \<open>Example data\<close>

text \<open>A scaler state with mean 50 and scale 10 in each of the six dimensions.\<close>

definition example_scaler :: scaler_state where
  "example_scaler = \<lparr>scaler_mean = [50, 50, 50, 50, 50, 50],
                      scaler_scale = [10, 10, 10, 10, 10, 10]\<rparr>"

definition example_row :: "(string \<times> string) list \<Rightarrow> (string \<times> real) list \<Rightarrow> row" where
  "example_row names vals =
     \<lparr>num = (\<lambda>k. case map_of vals k of None \<Rightarrow> 0 | Some v \<Rightarrow> v), str = map_of names\<rparr>"

text \<open>
  Three players with a short and a long name and the two prefixed pace attributes; no
  other attribute column.
\<close>

definition messi :: row where
  "messi = example_row [(''short_name'', ''L. Messi''), (''long_name'', ''Lionel Messi'')]
             [(''movement_acceleration'', 80), (''movement_sprint_speed'', 80)]"

definition ronaldo :: row where
  "ronaldo = example_row [(''short_name'', ''C. Ronaldo''), (''long_name'', ''Cristiano Ronaldo'')]
               [(''movement_acceleration'', 90), (''movement_sprint_speed'', 90)]"

definition mbappe :: row where
  "mbappe = example_row [(''short_name'', ''K. Mbappe''), (''long_name'', ''Kylian Mbappe'')]
              [(''movement_acceleration'', 96), (''movement_sprint_speed'', 96)]"

definition squad :: dataframe where
  "squad = \<lparr>columns = [''short_name'', ''long_name'',
                        ''movement_acceleration'', ''movement_sprint_speed''],
            rows = [messi, ronaldo, mbappe]\<rparr>"

text \<open>Two attribute records.\<close>

definition dribbling_record :: attributes where
  "dribbling_record =
     [''skill_dribbling'' \<mapsto> 90, ''skill_ball_control'' \<mapsto> 85,
      ''movement_agility'' \<mapsto> 80, ''movement_balance'' \<mapsto> 75]"

definition lone_dribbler :: attributes where
  "lone_dribbler = [''skill_dribbling'' \<mapsto> 90]"

text \<open>Two tables of one row each: one attribute column, and the four dribbling columns.\<close>

definition partial_table :: dataframe where
  "partial_table =
     \<lparr>columns = [''short_name'', ''skill_dribbling''],
      rows = [\<lparr>num = (\<lambda>_. 0)(''skill_dribbling'' := 90),
               str = (\<lambda>_. None)(''short_name'' := Some ''A. Player'')\<rparr>]\<rparr>"

definition dribbling_table :: dataframe where
  "dribbling_table =
     \<lparr>columns = [''short_name'', ''skill_dribbling'', ''skill_ball_control'',
                 ''movement_agility'', ''movement_balance''],
      rows = [\<lparr>num = (\<lambda>_. 0)(''skill_dribbling'' := 90, ''skill_ball_control'' := 85,
                              ''movement_agility'' := 80, ''movement_balance'' := 75),
               str = (\<lambda>_. None)(''short_name'' := Some ''A. Player'')\<rparr>]\<rparr>"

text \<open>Three request bodies.\<close>

definition too_many :: raw_similar_player_request where
  "too_many = \<lparr>raw_player_name = Some ''Messi'', raw_top_n = Some 21\<rparr>"

definition too_few :: raw_similar_player_request where
  "too_few = \<lparr>raw_player_name = Some ''Messi'', raw_top_n = Some 0\<rparr>"

definition twenty :: raw_similar_player_request where
  "twenty = \<lparr>raw_player_name = Some ''Messi'', raw_top_n = Some 20\<rparr>"

text \<open>
  Two tables. In the first, Alpha and Beta have the same attributes. In the second, the
  only attribute column is skill_dribbling, so the single-record reducer (three defaults
  of 50) and the batch reducer (the column alone) give a row different vectors.
\<close>

definition twin_a :: row where
  "twin_a = example_row [(''short_name'', ''Alpha'')]
              [(''movement_acceleration'', 80), (''movement_sprint_speed'', 80)]"

definition twin_b :: row where
  "twin_b = example_row [(''short_name'', ''Beta'')]
              [(''movement_acceleration'', 80), (''movement_sprint_speed'', 80)]"

definition third_c :: row where
  "third_c = example_row [(''short_name'', ''Gamma'')]
               [(''movement_acceleration'', 60), (''movement_sprint_speed'', 60)]"

definition twins :: dataframe where
  "twins = \<lparr>columns = [''short_name'', ''movement_acceleration'', ''movement_sprint_speed''],
            rows = [twin_a, twin_b, third_c]\<rparr>"

definition ada :: row where
  "ada = example_row [(''short_name'', ''Ada'')] [(''skill_dribbling'', 90)]"

definition bo :: row where
  "bo = example_row [(''short_name'', ''Bo'')] [(''skill_dribbling'', 60)]"

definition cy :: row where
  "cy = example_row [(''short_name'', ''Cy'')] [(''skill_dribbling'', 70)]"

definition dribblers :: dataframe where
  "dribblers = \<lparr>columns = [''short_name'', ''skill_dribbling''], rows = [ada, bo, cy]\<rparr>"

text \<open>
  A model of six centroids, a label map of five entries, and two sets of artifact files:
  one with these two, one whose label file is absent.
\<close>

definition six_centroids :: kmeans_model where
  "six_centroids =
     \<lparr>cluster_centers = [[0, 0, 0, 0, 0, 0], [1, 0, 0, 0, 0, 0], [0, 1, 0, 0, 0, 0],
                          [0, 0, 1, 0, 0, 0], [0, 0, 0, 1, 0, 0], [0, 0, 0, 0, 1, 0]]\<rparr>"

definition five_labels :: label_map where
  "five_labels =
     [(''0'', ''Creative Playmaker''), (''1'', ''Ball Winning Midfielder''),
      (''2'', ''Explosive Winger''), (''3'', ''Target Man''),
      (''4'', ''Defensive Center Back'')]"

definition mismatched_files :: model_files where
  "mismatched_files =
     \<lparr>scaler_pkl = Loaded example_scaler, kmeans_pkl = Loaded six_centroids,
      cluster_labels_json = Loaded five_labels, fc26_csv = Loaded squad\<rparr>"

definition labels_missing :: model_files where
  "labels_missing =
     \<lparr>scaler_pkl = Loaded example_scaler, kmeans_pkl = Loaded six_centroids,
      cluster_labels_json = File_not_found, fc26_csv = Loaded squad\<rparr>"

text \<open>A training matrix of two rows whose second column is constant.\<close>

definition constant_second_column :: "real list list" where
  "constant_second_column = [[1, 5], [3, 5]]"

text \<open>The second dribbling cell of row 0 is missing (the CSV row \<^verbatim>\<open>A. Player,90,,80,75\<close>).\<close>

definition second_cell_missing :: "nat \<Rightarrow> string \<Rightarrow> bool" where
  "second_cell_missing i col = (i = 0 \<and> col = ''skill_ball_control'')"

text \<open>
  An example of the library method, with three behaviours of the library: the accessor
  raises on a column of at least one row that holds no string; a parenthesis without its
  partner is a pattern error; a dot in the pattern stands for any character. Letters
  match without regard to case. The other special characters of regular expressions are
  not modelled and count as ordinary characters.
\<close>

fun paren_depth :: "string \<Rightarrow> nat \<Rightarrow> nat option" where
  "paren_depth [] d = Some d"
| "paren_depth (c # cs) d =
     (if c = CHR ''('' then paren_depth cs (Suc d)
      else if c = CHR '')'' then (case d of 0 \<Rightarrow> None | Suc d' \<Rightarrow> paren_depth cs d')
      else paren_depth cs d)"

fun dot_starts_with :: "string \<Rightarrow> string \<Rightarrow> bool" where
  "dot_starts_with [] s = True"
| "dot_starts_with (p # ps) [] = False"
| "dot_starts_with (p # ps) (c # cs) = ((p = CHR ''.'' \<or> p = c) \<and> dot_starts_with ps cs)"

fun dot_search :: "string \<Rightarrow> string \<Rightarrow> bool" where
  "dot_search pat [] = (pat = [])"
| "dot_search pat (c # cs) = (dot_starts_with pat (c # cs) \<or> dot_search pat cs)"

definition example_series_contains :: "string \<Rightarrow> string option list \<Rightarrow> bool list option" where
  "example_series_contains pat cells =
     (if cells \<noteq> [] \<and> list_all (\<lambda>c. c = None) cells then None
      else if paren_depth pat 0 \<noteq> Some 0 then None
      else Some (map (\<lambda>c. case c of
                             None \<Rightarrow> False
                           | Some s \<Rightarrow> dot_search (map lower_char (filter (\<lambda>x. x \<noteq> CHR ''('' \<and> x \<noteq> CHR '')'') pat))
                                         (map lower_char s)) cells))"

text \<open>The three players with long names only: the short-name column holds no string.\<close>

definition no_short_names :: dataframe where
  "no_short_names =
     \<lparr>columns = [''short_name'', ''long_name''],
      rows = [example_row [(''long_name'', ''Lionel Messi'')] [],
              example_row [(''long_name'', ''Cristiano Ronaldo'')] [],
              example_row [(''long_name'', ''Kylian Mbappe'')] []]\<rparr>"

section \<open>Facts about the program\<close>

subsection \<open>The reducers\<close>

lemma sum_list_dict_get:
  "sum_list (map (\<lambda>attr. dict_get attributes attr d) attrs) =
     sum_list (List.map_filter attributes attrs)
       + d * real (length (filter (\<lambda>attr. attributes attr = None) attrs))"
  by (induction attrs) (auto simp: dict_get_def algebra_simps split: option.splits)

lemma map_filter_all_present:
  "\<forall>a \<in> set xs. m a \<noteq> None \<Longrightarrow> length (List.map_filter m xs) = length xs"
  by (induction xs) auto

lemma map_filter_none_present:
  "\<forall>a \<in> set xs. m a = None \<Longrightarrow> List.map_filter m xs = []"
  by (induction xs) auto

lemma length_create_style_dimensions: "length (create_style_dimensions attributes) = 6"
  by (simp add: create_style_dimensions_def style_dims_def)

lemma create_style_dimensions_nth:
  "k < length style_dims \<Longrightarrow>
   create_style_dimensions attributes ! k =
     np_mean (map (\<lambda>attr. dict_get attributes attr 50) (snd (style_dims ! k)))"
  by (simp add: create_style_dimensions_def case_prod_unfold)

lemma style_dims_nonempty: "k < length style_dims \<Longrightarrow> snd (style_dims ! k) \<noteq> []"
proof -
  assume "k < length style_dims"
  then have "k < 6" by (simp add: style_dims_def)
  then consider "k = 0" | "k = 1" | "k = 2" | "k = 3" | "k = 4" | "k = 5" by linarith
  then show ?thesis
    by cases (simp_all add: style_dims_def)
qed

lemma length_batch: "length (create_style_dimensions_batch df) = length (rows df)"
  by (simp add: create_style_dimensions_batch_def np_transpose_def)

lemma batch_nth:
  assumes "i < length (rows df)"
  shows "create_style_dimensions_batch df ! i =
           map (\<lambda>(dimension, attrs).
                  let available_attrs = filter (\<lambda>col. col \<in> set (columns df)) attrs
                  in if available_attrs \<noteq> [] then np_mean (map (num (rows df ! i)) available_attrs)
                     else 50)
             style_dims_batch"
  using assms
  by (simp add: create_style_dimensions_batch_def np_transpose_def Let_def case_prod_unfold)

lemma mean_replicate: "n > 0 \<Longrightarrow> np_mean (replicate n c) = c"
  by (simp add: np_mean_def sum_list_replicate)

lemma single_mean_all_columns:
  assumes "set attrs \<subseteq> set (columns df)"
  shows "map (\<lambda>attr. dict_get (to_dict df r) attr d) attrs = map (num r) attrs"
  using assms by (induction attrs) (auto simp: dict_get_def to_dict_def)

lemma single_mean_no_columns:
  assumes "set attrs \<inter> set (columns df) = {}"
  shows "map (\<lambda>attr. dict_get (to_dict df r) attr d) attrs = replicate (length attrs) d"
  using assms by (induction attrs) (auto simp: dict_get_def to_dict_def)

lemma dims_related:
  "k < 6 \<Longrightarrow> set (snd (style_dims ! k)) \<subseteq> set (snd (style_dims_batch ! k))"
proof -
  assume "k < 6"
  then consider "k = 0" | "k = 1" | "k = 2" | "k = 3" | "k = 4" | "k = 5" by linarith
  then show ?thesis
    by cases (simp_all add: style_dims_def style_dims_batch_def)
qed

lemma length_dims: "length style_dims = 6" "length style_dims_batch = 6"
  by (simp_all add: style_dims_def style_dims_batch_def)

lemma batch_single_dimension:
  assumes i: "i < length (rows df)" and k: "k < 6"
    and ok: "filter (\<lambda>col. col \<in> set (columns df)) (snd (style_dims_batch ! k)) = snd (style_dims ! k)
           \<or> filter (\<lambda>col. col \<in> set (columns df)) (snd (style_dims_batch ! k)) = []"
  shows "create_style_dimensions_batch df ! i ! k =
         create_style_dimensions (to_dict df (rows df ! i)) ! k"
proof -
  let ?B = "snd (style_dims_batch ! k)" and ?S = "snd (style_dims ! k)"
  let ?av = "filter (\<lambda>col. col \<in> set (columns df)) ?B"
  let ?r = "rows df ! i"
  have ne: "?S \<noteq> []" using k by (simp add: style_dims_nonempty length_dims)
  have sub: "set ?S \<subseteq> set ?B" using k by (rule dims_related)
  have lhs: "create_style_dimensions_batch df ! i ! k =
               (if ?av \<noteq> [] then np_mean (map (num ?r) ?av) else 50)"
    using i k by (simp add: batch_nth length_dims case_prod_unfold Let_def)
  have rhs: "create_style_dimensions (to_dict df ?r) ! k =
               np_mean (map (\<lambda>attr. dict_get (to_dict df ?r) attr 50) ?S)"
    using k by (simp add: create_style_dimensions_nth length_dims)
  from ok show ?thesis
  proof
    assume eq: "?av = ?S"
    have "set ?av \<subseteq> set (columns df)" by auto
    then have "set ?S \<subseteq> set (columns df)" by (simp only: eq)
    then have m: "map (\<lambda>attr. dict_get (to_dict df ?r) attr 50) ?S = map (num ?r) ?S"
      by (rule single_mean_all_columns)
    have "create_style_dimensions_batch df ! i ! k = np_mean (map (num ?r) ?S)"
      unfolding lhs eq using ne by simp
    also have "\<dots> = create_style_dimensions (to_dict df ?r) ! k"
      unfolding rhs m by (rule refl)
    finally show ?thesis .
  next
    assume emp: "?av = []"
    then have "set ?B \<inter> set (columns df) = {}"
      by (auto simp: filter_empty_conv)
    with sub have "set ?S \<inter> set (columns df) = {}" by blast
    then have m: "map (\<lambda>attr. dict_get (to_dict df ?r) attr 50) ?S = replicate (length ?S) 50"
      by (rule single_mean_no_columns)
    have "create_style_dimensions_batch df ! i ! k = 50"
      by (simp add: lhs emp)
    also have "\<dots> = create_style_dimensions (to_dict df ?r) ! k"
      unfolding rhs m using ne by (simp add: mean_replicate)
    finally show ?thesis .
  qed
qed

lemma those_map_Some_id: "those (map Some xs) = Some xs"
  by (induction xs) simp_all

lemma map_filter_map_Some: "List.map_filter (\<lambda>v. v) (map Some xs) = xs"
  by (induction xs) simp_all

lemma pandas_row_mean_Some:
  "pandas_row_mean (map Some xs) = (if xs = [] then None else Some (np_mean xs))"
  by (simp add: pandas_row_mean_def map_filter_map_Some)

lemma batch_nan_nth:
  assumes "i < length (rows df)"
  shows "create_style_dimensions_batch_nan df missing ! i =
           map (\<lambda>(dimension, attrs).
                  let available_attrs = filter (\<lambda>col. col \<in> set (columns df)) attrs
                  in if available_attrs \<noteq> []
                     then pandas_row_mean (map (cell df missing i) available_attrs)
                     else Some 50)
             style_dims_batch"
  using assms
  by (simp add: create_style_dimensions_batch_nan_def np_transpose_def Let_def case_prod_unfold)

lemma batch_nan_present:
  assumes i: "i < length (rows df)" and k: "k < 6" and nm: "no_missing_cell df missing i k"
  shows "create_style_dimensions_batch_nan df missing ! i ! k =
           Some (create_style_dimensions_batch df ! i ! k)"
proof -
  let ?av = "filter (\<lambda>col. col \<in> set (columns df)) (snd (style_dims_batch ! k))"
  from nm have "\<forall>col \<in> set ?av. \<not> missing i col"
    by (simp add: no_missing_cell_def list_all_iff)
  then have c: "map (cell df missing i) ?av = map Some (map (num (rows df ! i)) ?av)"
    by (simp add: cell_def)
  have "pandas_row_mean (map (cell df missing i) ?av) =
          (if ?av = [] then None else Some (np_mean (map (num (rows df ! i)) ?av)))"
    unfolding c by (simp only: pandas_row_mean_Some map_is_Nil_conv)
  then show ?thesis
    using i k by (simp add: batch_nan_nth batch_nth length_dims case_prod_unfold Let_def)
qed

lemma single_nan_present:
  assumes k: "k < 6"
    and nm: "\<forall>col \<in> set (snd (style_dims ! k)). col \<in> set (columns df) \<longrightarrow> \<not> missing i col"
  shows "create_style_dimensions_nan (to_dict_nan df missing i) ! k =
           Some (create_style_dimensions (to_dict df (rows df ! i)) ! k)"
proof -
  let ?S = "snd (style_dims ! k)"
  have "map (\<lambda>attr. case to_dict_nan df missing i attr of None \<Rightarrow> Some 50 | Some v \<Rightarrow> v) ?S
        = map Some (map (\<lambda>attr. dict_get (to_dict df (rows df ! i)) attr 50) ?S)"
    using nm by (simp add: to_dict_nan_def to_dict_def dict_get_def cell_def)
  then have "np_mean_nan (map (\<lambda>attr. case to_dict_nan df missing i attr of
                                         None \<Rightarrow> Some 50 | Some v \<Rightarrow> v) ?S)
             = Some (np_mean (map (\<lambda>attr. dict_get (to_dict df (rows df ! i)) attr 50) ?S))"
    by (simp only: np_mean_nan_def those_map_Some_id option.map)
  then show ?thesis
    using k by (simp add: create_style_dimensions_nan_def create_style_dimensions_def
        length_dims case_prod_unfold)
qed

lemma agreeing_dimension_nan:
  assumes i: "i < length (rows df)" and k: "k < 6"
    and ag: "schema_agrees df k" and nm: "no_missing_cell df missing i k"
  shows "create_style_dimensions_batch_nan df missing ! i ! k =
           create_style_dimensions_nan (to_dict_nan df missing i) ! k"
    and "create_style_dimensions_batch_nan df missing ! i ! k \<noteq> None"
proof -
  let ?av = "filter (\<lambda>col. col \<in> set (columns df)) (snd (style_dims_batch ! k))"
  have sub: "set (snd (style_dims ! k)) \<subseteq> set (snd (style_dims_batch ! k))"
    using k by (rule dims_related)
  from nm have "\<forall>col \<in> set ?av. \<not> missing i col"
    by (simp add: no_missing_cell_def list_all_iff)
  with sub have s: "\<forall>col \<in> set (snd (style_dims ! k)). col \<in> set (columns df) \<longrightarrow> \<not> missing i col"
    by auto
  have b: "create_style_dimensions_batch df ! i ! k =
           create_style_dimensions (to_dict df (rows df ! i)) ! k"
    using i k ag by (intro batch_single_dimension) (simp_all add: schema_agrees_def Let_def)
  show "create_style_dimensions_batch_nan df missing ! i ! k =
           create_style_dimensions_nan (to_dict_nan df missing i) ! k"
    by (simp add: batch_nan_present [OF i k nm] single_nan_present [where df = df and missing = missing and i = i, OF k s] b)
  show "create_style_dimensions_batch_nan df missing ! i ! k \<noteq> None"
    by (simp add: batch_nan_present [OF i k nm])
qed

lemma length_batch_nan_row:
  "i < length (rows df) \<Longrightarrow> length (create_style_dimensions_batch_nan df missing ! i) = 6"
  by (simp add: batch_nan_nth length_dims)

lemma length_single_nan: "length (create_style_dimensions_nan attributes) = 6"
  by (simp add: create_style_dimensions_nan_def length_dims)

subsection \<open>Name lookup and matching\<close>

lemma column_matches_iff:
  "column_matches contains df pat name_col \<longleftrightarrow>
     name_col \<in> set (columns df) \<and>
     (\<exists>r \<in> set (rows df). \<exists>s. str r name_col = Some s \<and> contains pat s)"
  by (auto simp: column_matches_def mask_any_def str_contains_def image_iff
      split: option.splits)

lemma lookup_loop_found:
  "find (column_matches contains df pat) cols = Some c \<Longrightarrow>
   lookup_loop contains df pat cols st = (Some (str_contains contains df c pat), Some c)"
proof (induction cols arbitrary: st)
  case Nil
  then show ?case by simp
next
  case (Cons name_col rest)
  obtain player_mask name_col_used where st: "st = (player_mask, name_col_used)"
    by (cases st)
  show ?case
  proof (cases "column_matches contains df pat name_col")
    case True
    with Cons.prems have "c = name_col" by simp
    with True show ?thesis by (simp add: st column_matches_def)
  next
    case False
    with Cons.prems have "find (column_matches contains df pat) rest = Some c" by simp
    then have "\<And>st'. lookup_loop contains df pat rest st' =
                 (Some (str_contains contains df c pat), Some c)"
      by (rule Cons.IH)
    with False show ?thesis by (auto simp: st column_matches_def Let_def)
  qed
qed

lemma lookup_loop_not_found:
  "find (column_matches contains df pat) cols = None \<Longrightarrow>
   snd (lookup_loop contains df pat cols (player_mask, name_col_used)) = name_col_used \<and>
   (case fst (lookup_loop contains df pat cols (player_mask, name_col_used)) of
      None \<Rightarrow> player_mask = None
    | Some m \<Rightarrow> player_mask = Some m \<or> \<not> mask_any m)"
proof (induction cols arbitrary: player_mask)
  case Nil
  then show ?case by (simp split: option.splits)
next
  case (Cons name_col rest)
  from Cons.prems have no: "\<not> column_matches contains df pat name_col"
    and rest: "find (column_matches contains df pat) rest = None"
    by (simp_all split: if_splits)
  show ?case
  proof (cases "name_col \<in> set (columns df)")
    case True
    with no have nm: "\<not> mask_any (str_contains contains df name_col pat)"
      by (simp add: column_matches_def)
    from Cons.IH [OF rest, of "Some (str_contains contains df name_col pat)"] True nm
    show ?thesis by (auto simp: Let_def split: option.splits)
  next
    case False
    with Cons.IH [OF rest, of player_mask] show ?thesis by simp
  qed
qed

lemma masked_rows_nonempty:
  assumes "mask_any (str_contains contains df c pat)"
  shows "masked_rows df (str_contains contains df c pat) \<noteq> []"
proof -
  from assms obtain r where r: "r \<in> set (rows df)"
    and t: "(case str r c of None \<Rightarrow> False | Some s \<Rightarrow> contains pat s)"
    by (auto simp: mask_any_def str_contains_def)
  have z: "zip (rows df) (str_contains contains df c pat) =
          map (\<lambda>r. (r, case str r c of None \<Rightarrow> False | Some s \<Rightarrow> contains pat s)) (rows df)"
    by (simp add: str_contains_def zip_map2 zip_same_conv_map)
  have "(r, True) \<in> set (zip (rows df) (str_contains contains df c pat))"
    unfolding z using r t by (auto simp: image_iff)
  then have "r \<in> set (masked_rows df (str_contains contains df c pat))"
    by (force simp: masked_rows_def)
  then show ?thesis by auto
qed

lemma starts_with_iff: "starts_with p s \<longleftrightarrow> (\<exists>suf. s = p @ suf)"
  by (induction p s rule: starts_with.induct) auto

lemma has_substring_iff: "has_substring p s \<longleftrightarrow> (\<exists>pre suf. s = pre @ p @ suf)"
proof (induction s)
  case Nil
  then show ?case by simp
next
  case (Cons c cs)
  show ?case
  proof
    assume "has_substring p (c # cs)"
    then consider "starts_with p (c # cs)" | "has_substring p cs" by auto
    then show "\<exists>pre suf. c # cs = pre @ p @ suf"
    proof cases
      case 1
      then obtain suf where "c # cs = p @ suf" by (auto simp: starts_with_iff)
      then have "c # cs = [] @ p @ suf" by simp
      then show ?thesis by blast
    next
      case 2
      then obtain pre suf where "cs = pre @ p @ suf" using Cons.IH by blast
      then have "c # cs = (c # pre) @ p @ suf" by simp
      then show ?thesis by blast
    qed
  next
    assume "\<exists>pre suf. c # cs = pre @ p @ suf"
    then obtain pre suf where e: "c # cs = pre @ p @ suf" by blast
    show "has_substring p (c # cs)"
    proof (cases pre)
      case Nil
      with e have "starts_with p (c # cs)" by (auto simp: starts_with_iff)
      then show ?thesis by simp
    next
      case (Cons a pre')
      with e have "cs = pre' @ p @ suf" by simp
      then have "has_substring p cs" using Cons.IH by blast
      then show ?thesis by simp
    qed
  qed
qed

lemma find_similar_players_cases:
  "case find (column_matches contains df (player_name request)) name_columns of
     None \<Rightarrow>
       find_similar_players contains sc df request =
         Inl (HTTP_404 (not_found_detail (player_name request)))
   | Some c \<Rightarrow>
       lookup_loop contains df (player_name request) name_columns (None, None) =
         (Some (str_contains contains df c (player_name request)), Some c)
       \<and> (\<exists>player_row others.
             masked_rows df (str_contains contains df c (player_name request)) =
               player_row # others
             \<and> find_similar_players contains sc df request =
                 (case player_distances sc df player_row of
                    None \<Rightarrow> Inl HTTP_500
                  | Some distances \<Rightarrow>
                      Inr (map (\<lambda>i. str (rows df ! i) c)
                             (similar_indices distances (top_n request)))))"
proof -
  let ?q = "player_name request"
  show ?thesis
  proof (cases "find (column_matches contains df ?q) name_columns")
    case None
    obtain pm used where l: "lookup_loop contains df ?q name_columns (None, None) = (pm, used)"
      by (cases "lookup_loop contains df ?q name_columns (None, None)")
    from lookup_loop_not_found [OF None, of None None] l
    have "case pm of None \<Rightarrow> True | Some m \<Rightarrow> \<not> mask_any m"
      by (auto split: option.splits)
    then have "find_similar_players contains sc df request = Inl (HTTP_404 (not_found_detail ?q))"
      by (auto simp: find_similar_players_def l split: option.splits)
    with None show ?thesis by simp
  next
    case (Some c)
    then have l: "lookup_loop contains df ?q name_columns (None, None) =
                    (Some (str_contains contains df c ?q), Some c)"
      by (rule lookup_loop_found)
    from Some have "column_matches contains df ?q c"
      by (auto simp: find_Some_iff)
    then have a: "mask_any (str_contains contains df c ?q)"
      by (simp add: column_matches_def)
    then obtain player_row others
      where m: "masked_rows df (str_contains contains df c ?q) = player_row # others"
      using masked_rows_nonempty [OF a] by (cases "masked_rows df (str_contains contains df c ?q)") auto
    have "find_similar_players contains sc df request =
            (case player_distances sc df player_row of
               None \<Rightarrow> Inl HTTP_500
             | Some distances \<Rightarrow>
                 Inr (map (\<lambda>i. str (rows df ! i) c)
                        (similar_indices distances (top_n request))))"
      by (simp add: find_similar_players_def l a m)
    with Some l m show ?thesis by simp
  qed
qed

lemma lookup_loop_raising_never:
  "lookup_loop_raising (never_raising contains) df pat cols st =
     Some (lookup_loop contains df pat cols st)"
proof (induction cols arbitrary: st)
  case Nil
  then show ?case by (cases st) simp
next
  case (Cons name_col rest)
  obtain player_mask name_col_used where st: "st = (player_mask, name_col_used)"
    by (cases st)
  have m: "never_raising contains pat (column_cells df name_col) =
             Some (str_contains contains df name_col pat)"
    by (simp add: never_raising_def column_cells_def str_contains_def comp_def)
  show ?case
    by (simp add: st m Cons.IH Let_def)
qed

lemma lookup_loop_raising_decided:
  "find (decides series_contains df pat) cols = Some c \<Longrightarrow>
   lookup_loop_raising series_contains df pat cols st =
     (case series_contains pat (column_cells df c) of
        None \<Rightarrow> None
      | Some player_mask \<Rightarrow> Some (Some player_mask, Some c))"
proof (induction cols arbitrary: st)
  case Nil
  then show ?case by simp
next
  case (Cons name_col rest)
  obtain player_mask name_col_used where st: "st = (player_mask, name_col_used)"
    by (cases st)
  show ?case
  proof (cases "decides series_contains df pat name_col")
    case True
    with Cons.prems have "c = name_col" by simp
    with True show ?thesis
      by (auto simp: st decides_def split: option.splits)
  next
    case False
    with Cons.prems have "find (decides series_contains df pat) rest = Some c" by simp
    then have ih: "\<And>st'. lookup_loop_raising series_contains df pat rest st' =
                 (case series_contains pat (column_cells df c) of
                    None \<Rightarrow> None
                  | Some player_mask \<Rightarrow> Some (Some player_mask, Some c))"
      by (rule Cons.IH)
    from False show ?thesis
      by (auto simp: st decides_def ih split: option.splits)
  qed
qed

lemma lookup_loop_raising_undecided:
  "find (decides series_contains df pat) cols = None \<Longrightarrow>
   \<exists>player_mask'. lookup_loop_raising series_contains df pat cols (player_mask, name_col_used)
       = Some (player_mask', name_col_used)
     \<and> (case player_mask' of None \<Rightarrow> player_mask = None
         | Some m \<Rightarrow> player_mask = Some m \<or> \<not> mask_any m)"
proof (induction cols arbitrary: player_mask)
  case Nil
  then show ?case by (simp split: option.splits)
next
  case (Cons name_col rest)
  from Cons.prems have no: "\<not> decides series_contains df pat name_col"
    and rest: "find (decides series_contains df pat) rest = None"
    by (simp_all split: if_splits)
  show ?case
  proof (cases "name_col \<in> set (columns df)")
    case True
    with no obtain m where m: "series_contains pat (column_cells df name_col) = Some m"
      and nm: "\<not> mask_any m"
      by (auto simp: decides_def split: option.splits)
    from Cons.IH [OF rest, of "Some m"] True m nm
    show ?thesis by (auto split: option.splits)
  next
    case False
    with Cons.IH [OF rest, of player_mask] show ?thesis by simp
  qed
qed

text \<open>
  The outcome of the lookup: the first name column that decides it is the column used; a
  call that raises there gives 500, and 404 is the answer when no column decides.
\<close>

lemma find_player_outcome:
  "find_player series_contains df pat =
     (case find (decides series_contains df pat) name_columns of
        None \<Rightarrow> Inl (HTTP_404 (not_found_detail pat))
      | Some c \<Rightarrow>
          (case series_contains pat (column_cells df c) of
             None \<Rightarrow> Inl HTTP_500
           | Some player_mask \<Rightarrow> Inr (player_mask, c)))"
proof (cases "find (decides series_contains df pat) name_columns")
  case None
  from lookup_loop_raising_undecided [OF None, of None None]
  obtain pm where "lookup_loop_raising series_contains df pat name_columns (None, None) = Some (pm, None)"
    and "case pm of None \<Rightarrow> True | Some m \<Rightarrow> \<not> mask_any m"
    by (auto split: option.splits)
  then have "find_player series_contains df pat = Inl (HTTP_404 (not_found_detail pat))"
    by (auto simp: find_player_def split: option.splits)
  with None show ?thesis by simp
next
  case (Some c)
  then have d: "decides series_contains df pat c" by (auto simp: find_Some_iff)
  from lookup_loop_raising_decided [OF Some, of "(None, None)"] d Some
  show ?thesis
    by (auto simp: find_player_def decides_def split: option.splits)
qed

lemma find_similar_players_via_find_player:
  "find_similar_players contains sc df request =
     (case find_player (never_raising contains) df (player_name request) of
        Inl e \<Rightarrow> Inl e
      | Inr (player_mask, col) \<Rightarrow>
          (case masked_rows df player_mask of
             [] \<Rightarrow> Inl HTTP_500
           | player_row # others \<Rightarrow>
               (case player_distances sc df player_row of
                  None \<Rightarrow> Inl HTTP_500
                | Some distances \<Rightarrow>
                    Inr (map (\<lambda>i. str (rows df ! i) col)
                           (similar_indices distances (top_n request))))))"
  by (auto simp: find_similar_players_def find_player_def lookup_loop_raising_never
      split: prod.splits option.splits list.splits)

subsection \<open>Ranking\<close>

lemma those_length: "those xs = Some ys \<Longrightarrow> length ys = length xs"
  by (induction xs arbitrary: ys) (auto split: option.splits)

lemma length_player_distances:
  "player_distances sc df player_row = Some distances \<Longrightarrow>
   length distances = length (rows df)"
  by (auto simp: player_distances_def length_batch split: option.splits dest: those_length)

lemma length_argsort: "length (argsort ds) = length ds"
  by (simp add: argsort_def)

lemma length_similar_indices:
  "0 \<le> n \<Longrightarrow> length (similar_indices ds n) = min (nat n) (length ds - 1)"
  by (auto simp: similar_indices_def py_slice_from_1_def length_argsort Let_def min_def)

lemma sorted_argsort: "sorted (map (\<lambda>i. ds ! i) (argsort ds))"
  by (simp add: argsort_def)

lemma sorted_similar_indices: "sorted (map (\<lambda>i. ds ! i) (similar_indices ds n))"
proof -
  have "sorted (drop 1 (take k (map (\<lambda>i. ds ! i) (argsort ds))))" for k
    using sorted_argsort [of ds] by (intro sorted_wrt_drop sorted_wrt_take)
  then show ?thesis
    by (simp add: similar_indices_def py_slice_from_1_def Let_def take_map drop_map)
qed

lemma masked_rows_subset: "set (masked_rows df player_mask) \<subseteq> set (rows df)"
  by (auto simp: masked_rows_def dest: set_zip_leftD)

lemma player_distances_euclidean:
  "player_distances sc df player_row = Some distances \<Longrightarrow>
   \<exists>player_scaled all_scaled.
     transform sc (create_style_dimensions (to_dict df player_row)) = Some player_scaled
     \<and> those (map (transform sc) (create_style_dimensions_batch df)) = Some all_scaled
     \<and> distances = map (\<lambda>v. sqrt (\<Sum>(x, y)\<leftarrow>zip v player_scaled. (x - y)\<^sup>2)) all_scaled"
  by (auto simp: player_distances_def l2_norm_def map_map comp_def case_prod_unfold
      split: option.splits)

lemma validated_top_n:
  "validate_similar_player_request raw = Inr request \<Longrightarrow>
   1 \<le> top_n request \<and> top_n request \<le> 20"
  by (auto simp: validate_similar_player_request_def check_top_n_def
      split: sum.splits option.splits if_splits)

text \<open>
  The entry dropped is the first of the sorted order, whoever it is: the result is the
  sorted order without its head, cut to the requested count.
\<close>

lemma similar_indices_drops_head:
  "0 \<le> n \<Longrightarrow> similar_indices ds n = take (nat n) (tl (argsort ds))"
  by (auto simp: similar_indices_def py_slice_from_1_def Let_def drop_Suc min_def
      length_argsort nat_add_distrib tl_take drop_take simp flip: tl_drop)

subsection \<open>Fitting and transforming\<close>

lemma sum_list_affine:
  "sum_list (map (\<lambda>x. (x - m) / s) xs) = (sum_list xs - real (length xs) * m) / (s::real)"
  by (induction xs) (simp_all add: add_divide_distrib diff_divide_distrib algebra_simps)

lemma np_mean_affine:
  assumes "xs \<noteq> []"
  shows "np_mean (map (\<lambda>x. (x - m) / s) xs) = (np_mean xs - m) / s"
proof -
  have n: "real (length xs) \<noteq> 0" using assms by simp
  have "np_mean (map (\<lambda>x. (x - m) / s) xs)
        = (sum_list xs - real (length xs) * m) / s / real (length xs)"
    unfolding np_mean_def sum_list_affine by simp
  also have "\<dots> = (sum_list xs - real (length xs) * m) / real (length xs) / s"
    by (simp add: divide_divide_eq_left mult.commute)
  also have "(sum_list xs - real (length xs) * m) / real (length xs)
             = sum_list xs / real (length xs) - m"
    using n by (simp add: diff_divide_distrib)
  finally show ?thesis by (simp add: np_mean_def)
qed

lemma sum_list_scaled: "sum_list (map (\<lambda>x. f x / c) xs) = sum_list (map f xs) / (c::real)"
  by (induction xs) (simp_all add: add_divide_distrib)

lemma column_std_nonneg: "0 \<le> column_std xs"
proof -
  have "0 \<le> sum_list (map (\<lambda>x. (x - np_mean xs)\<^sup>2) xs)"
    by (rule sum_list_nonneg) auto
  then show ?thesis by (simp add: column_std_def np_mean_def)
qed

lemma column_std_affine:
  assumes "xs \<noteq> []" and "0 < s"
  shows "column_std (map (\<lambda>x. (x - m) / s) xs) = column_std xs / s"
proof -
  have dev: "((x - m) / s - (np_mean xs - m) / s)\<^sup>2 = (x - np_mean xs)\<^sup>2 / s\<^sup>2" for x
    by (simp add: diff_divide_distrib [symmetric] power_divide)
  have "np_mean (map (\<lambda>x. (x - np_mean (map (\<lambda>x. (x - m) / s) xs))\<^sup>2)
                  (map (\<lambda>x. (x - m) / s) xs))
        = np_mean (map (\<lambda>x. (x - np_mean xs)\<^sup>2 / s\<^sup>2) xs)"
    using assms(1) by (simp add: np_mean_affine comp_def dev)
  also have "\<dots> = np_mean (map (\<lambda>x. (x - np_mean xs)\<^sup>2) xs) / s\<^sup>2"
    by (simp add: np_mean_def sum_list_scaled)
  finally show ?thesis
    using assms(2) by (simp add: column_std_def real_sqrt_divide)
qed

lemma those_map_Some:
  "(\<And>r. r \<in> set M \<Longrightarrow> f r = Some (g r)) \<Longrightarrow> those (map f M) = Some (map g M)"
  by (induction M) simp_all

lemma transform_row:
  assumes "length r = length (scaler_mean sc)" and "length r = length (scaler_scale sc)"
  shows "transform sc r =
           Some (map (\<lambda>j. (r ! j - scaler_mean sc ! j) / scaler_scale sc ! j) [0..<length r])"
proof -
  have "map (\<lambda>(v, m, s). (v - m) / s) (zip r (zip (scaler_mean sc) (scaler_scale sc)))
        = map (\<lambda>j. (r ! j - scaler_mean sc ! j) / scaler_scale sc ! j) [0..<length r]"
    using assms by (intro nth_equalityI) simp_all
  with assms show ?thesis by (simp add: transform_def)
qed

lemma n_features_uniform:
  "M \<noteq> [] \<Longrightarrow> \<forall>r \<in> set M. length r = d \<Longrightarrow> n_features M = d"
  by (cases M) (simp_all add: n_features_def)

lemma transform_matrix_fit:
  assumes ne: "M \<noteq> []" and len: "\<forall>r \<in> set M. length r = d"
  shows "transform_matrix (fit M) M =
           Some (map (\<lambda>r. map (\<lambda>j. (r ! j - scaler_mean (fit M) ! j) / scaler_scale (fit M) ! j)
                            [0..<d]) M)"
  unfolding transform_matrix_def
proof (rule those_map_Some)
  fix r assume r: "r \<in> set M"
  have n: "n_features M = d" using ne len by (rule n_features_uniform)
  from r len have l: "length r = d" by simp
  have "transform (fit M) r =
          Some (map (\<lambda>j. (r ! j - scaler_mean (fit M) ! j) / scaler_scale (fit M) ! j)
                  [0..<length r])"
    by (rule transform_row) (simp_all add: fit_def n l)
  then show "transform (fit M) r =
          Some (map (\<lambda>j. (r ! j - scaler_mean (fit M) ! j) / scaler_scale (fit M) ! j) [0..<d])"
    by (simp add: l)
qed

lemma transformed_column:
  assumes ne: "M \<noteq> []" and len: "\<forall>r \<in> set M. length r = d" and j: "j < d"
    and T: "transform_matrix (fit M) M = Some T"
  shows "matrix_column T j =
           map (\<lambda>x. (x - np_mean (matrix_column M j)) / scaler_scale (fit M) ! j)
             (matrix_column M j)"
proof -
  have n: "n_features M = d" using ne len by (rule n_features_uniform)
  have m: "scaler_mean (fit M) ! j = np_mean (matrix_column M j)"
    using j by (simp add: fit_def n)
  from T transform_matrix_fit [OF ne len]
  have "T = map (\<lambda>r. map (\<lambda>j. (r ! j - scaler_mean (fit M) ! j) / scaler_scale (fit M) ! j)
                       [0..<d]) M"
    by simp
  then show ?thesis using j by (simp add: matrix_column_def comp_def m)
qed

subsection \<open>The scan for the first least distance\<close>

text \<open>
  The scan, generalised: \<open>pre\<close> are the entries already seen, \<open>ds\<close> those to come.
\<close>

lemma first_min_scan:
  assumes "best < length pre" and "pre ! best = best_d"
    and "\<forall>j < length pre. best_d \<le> pre ! j"
    and "\<forall>j < best. best_d < pre ! j"
  shows "first_min ds best best_d (length pre) < length (pre @ ds)
       \<and> (\<forall>j < length (pre @ ds).
             (pre @ ds) ! first_min ds best best_d (length pre) \<le> (pre @ ds) ! j)
       \<and> (\<forall>j < first_min ds best best_d (length pre).
             (pre @ ds) ! first_min ds best best_d (length pre) < (pre @ ds) ! j)"
  using assms
proof (induction ds arbitrary: pre best best_d)
  case Nil
  then show ?case by simp
next
  case (Cons d ds)
  let ?pre = "pre @ [d]"
  have len: "length ?pre = Suc (length pre)" by simp
  have app: "pre @ d # ds = ?pre @ ds" by simp
  show ?case
  proof (cases "d < best_d")
    case True
    have a1: "length pre < length ?pre" by simp
    have a2: "?pre ! length pre = d" by simp
    have a3: "\<forall>j < length ?pre. d \<le> ?pre ! j"
      using Cons.prems(3) True by (auto simp: nth_append less_Suc_eq)
    have a4: "\<forall>j < length pre. d < ?pre ! j"
      using Cons.prems(3) True by (auto simp: nth_append)
    from Cons.IH [OF a1 a2 a3 a4] True show ?thesis
      unfolding app len by simp
  next
    case False
    have b1: "best < length ?pre" using Cons.prems(1) by simp
    have b2: "?pre ! best = best_d" using Cons.prems(1,2) by (simp add: nth_append)
    have b3: "\<forall>j < length ?pre. best_d \<le> ?pre ! j"
      using Cons.prems(3) False by (auto simp: nth_append less_Suc_eq)
    have b4: "\<forall>j < best. best_d < ?pre ! j"
      using Cons.prems(1,4) by (auto simp: nth_append)
    from Cons.IH [OF b1 b2 b3 b4] False show ?thesis
      unfolding app len by simp
  qed
qed

lemma first_min_correct:
  "first_min ds 0 d 1 < length (d # ds)
   \<and> (\<forall>j < length (d # ds). (d # ds) ! first_min ds 0 d 1 \<le> (d # ds) ! j)
   \<and> (\<forall>j < first_min ds 0 d 1. (d # ds) ! first_min ds 0 d 1 < (d # ds) ! j)"
  using first_min_scan [of 0 "[d]" d ds] by simp

subsection \<open>The example data evaluated\<close>

lemmas squad_rows = messi_def ronaldo_def mbappe_def example_row_def

lemma l2_norm_first: "l2_norm [a, 0, 0, 0, 0, 0] = \<bar>a\<bar>"
  by (simp add: l2_norm_def)

lemma l2_norm_second: "l2_norm [0, a, 0, 0, 0, 0] = \<bar>a\<bar>"
  by (simp add: l2_norm_def)

lemma squad_batch:
  "create_style_dimensions_batch squad =
     [[80, 50, 50, 50, 50, 50], [90, 50, 50, 50, 50, 50], [96, 50, 50, 50, 50, 50]]"
  by (simp add: create_style_dimensions_batch_def squad_def style_dims_batch_def
      np_transpose_def squad_rows np_mean_def upt_rec)

lemma squad_single_ronaldo:
  "create_style_dimensions (to_dict squad ronaldo) = [90, 50, 50, 50, 50, 50]"
  by (simp add: create_style_dimensions_def style_dims_def to_dict_def dict_get_def
      squad_def squad_rows np_mean_def)

lemma squad_distances_ronaldo:
  "player_distances example_scaler squad ronaldo = Some [1, 0, 3 / 5]"
  by (simp add: player_distances_def squad_batch squad_single_ronaldo transform_def
      example_scaler_def l2_norm_first)

lemma squad_lookup_an:
  "find (column_matches ci_contains squad ''AN'') name_columns = Some ''long_name''"
  by (simp add: column_matches_def name_columns_def squad_def str_contains_def squad_rows
      mask_any_def ci_contains_def lower_char_def)

lemma squad_masked_an:
  "masked_rows squad (str_contains ci_contains squad ''long_name'' ''AN'') = [ronaldo, mbappe]"
  by (simp add: masked_rows_def squad_def str_contains_def squad_rows
      ci_contains_def lower_char_def)

lemma squad_names:
  "rows squad = [messi, ronaldo, mbappe]"
  "str messi ''long_name'' = Some ''Lionel Messi''"
  "str ronaldo ''long_name'' = Some ''Cristiano Ronaldo''"
  "str mbappe ''long_name'' = Some ''Kylian Mbappe''"
  by (simp_all add: squad_def squad_rows)

lemma schema_agrees_dribbling_table: "k < 6 \<Longrightarrow> schema_agrees dribbling_table k"
proof -
  assume "k < 6"
  then consider "k = 0" | "k = 1" | "k = 2" | "k = 3" | "k = 4" | "k = 5" by linarith
  then show ?thesis
    by cases
      (simp_all add: schema_agrees_def dribbling_table_def style_dims_def style_dims_batch_def)
qed

lemma squad_query_top_5:
  "find_similar_players ci_contains example_scaler squad \<lparr>player_name = ''AN'', top_n = 5\<rparr>
     = Inr [Some ''Kylian Mbappe'', Some ''Lionel Messi'']"
proof -
  have i: "similar_indices [1, 0, 3 / 5] 5 = [2, 0]"
    by (simp add: similar_indices_def argsort_def py_slice_from_1_def upt_rec)
  from find_similar_players_cases [where contains = ci_contains and df = squad
      and request = "\<lparr>player_name = ''AN'', top_n = 5\<rparr>" and sc = example_scaler]
  show ?thesis
    by (simp add: squad_lookup_an squad_masked_an squad_distances_ronaldo i squad_names)
qed

lemmas twins_rows = twin_a_def twin_b_def third_c_def example_row_def

lemmas dribblers_rows = ada_def bo_def cy_def example_row_def

lemma twins_lookup:
  "find (column_matches ci_contains twins ''beta'') name_columns = Some ''short_name''"
  by (simp add: column_matches_def name_columns_def twins_def str_contains_def twins_rows
      mask_any_def ci_contains_def lower_char_def)

lemma twins_masked:
  "masked_rows twins (str_contains ci_contains twins ''short_name'' ''beta'') = [twin_b]"
  by (simp add: masked_rows_def twins_def str_contains_def twins_rows
      ci_contains_def lower_char_def)

lemma twins_batch:
  "create_style_dimensions_batch twins =
     [[80, 50, 50, 50, 50, 50], [80, 50, 50, 50, 50, 50], [60, 50, 50, 50, 50, 50]]"
  by (simp add: create_style_dimensions_batch_def twins_def style_dims_batch_def
      np_transpose_def twins_rows np_mean_def upt_rec)

lemma twins_single: "create_style_dimensions (to_dict twins twin_b) = [80, 50, 50, 50, 50, 50]"
  by (simp add: create_style_dimensions_def style_dims_def to_dict_def dict_get_def
      twins_def twins_rows np_mean_def)

lemma twins_distances: "player_distances example_scaler twins twin_b = Some [0, 0, 2]"
  by (simp add: player_distances_def twins_batch twins_single transform_def
      example_scaler_def l2_norm_first)

lemma twins_indices: "similar_indices [0, 0, 2] 2 = [1, 2]"
  by (simp add: similar_indices_def argsort_def py_slice_from_1_def upt_rec)

lemma twins_names:
  "rows twins = [twin_a, twin_b, third_c]"
  "str twin_b ''short_name'' = Some ''Beta''"
  "str third_c ''short_name'' = Some ''Gamma''"
  by (simp_all add: twins_def twins_rows)

lemma dribblers_lookup:
  "find (column_matches ci_contains dribblers ''ada'') name_columns = Some ''short_name''"
  by (simp add: column_matches_def name_columns_def dribblers_def str_contains_def
      dribblers_rows mask_any_def ci_contains_def lower_char_def)

lemma dribblers_masked:
  "masked_rows dribblers (str_contains ci_contains dribblers ''short_name'' ''ada'') = [ada]"
  by (simp add: masked_rows_def dribblers_def str_contains_def dribblers_rows
      ci_contains_def lower_char_def)

lemma dribblers_batch:
  "create_style_dimensions_batch dribblers =
     [[50, 90, 50, 50, 50, 50], [50, 60, 50, 50, 50, 50], [50, 70, 50, 50, 50, 50]]"
  by (simp add: create_style_dimensions_batch_def dribblers_def style_dims_batch_def
      np_transpose_def dribblers_rows np_mean_def upt_rec)

lemma dribblers_single:
  "create_style_dimensions (to_dict dribblers ada) = [50, 60, 50, 50, 50, 50]"
  by (simp add: create_style_dimensions_def style_dims_def to_dict_def dict_get_def
      dribblers_def dribblers_rows np_mean_def)

lemma dribblers_distances: "player_distances example_scaler dribblers ada = Some [3, 0, 1]"
  by (simp add: player_distances_def dribblers_batch dribblers_single transform_def
      example_scaler_def l2_norm_second)

lemma dribblers_indices: "similar_indices [3, 0, 1] 2 = [2, 0]"
  by (simp add: similar_indices_def argsort_def py_slice_from_1_def upt_rec)

lemma dribblers_names:
  "rows dribblers = [ada, bo, cy]"
  "str ada ''short_name'' = Some ''Ada''"
  "str cy ''short_name'' = Some ''Cy''"
  by (simp_all add: dribblers_def dribblers_rows)

lemma fit_constant_second_column:
  "fit constant_second_column = \<lparr>scaler_mean = [2, 5], scaler_scale = [1, 1]\<rparr>"
  by (simp add: fit_def constant_second_column_def n_features_def matrix_column_def
      column_std_def np_mean_def upt_rec)

lemma transform_constant_second_column:
  "transform_matrix (fit constant_second_column) constant_second_column
     = Some [[- 1, 0], [1, 0]]"
  unfolding fit_constant_second_column
  by (simp add: transform_matrix_def transform_def constant_second_column_def)

lemma missing_cell_disagreement:
  "create_style_dimensions_batch_nan dribbling_table second_cell_missing ! 0 ! 1 = Some (245 / 3)
   \<and> create_style_dimensions_nan (to_dict_nan dribbling_table second_cell_missing 0) ! 1 = None"
  by (simp add: batch_nan_nth dribbling_table_def style_dims_batch_def pandas_row_mean_def
      cell_def second_cell_missing_def np_mean_def create_style_dimensions_nan_def
      style_dims_def to_dict_nan_def np_mean_nan_def)

lemma no_missing_dribbling_table: "no_missing_cell dribbling_table (\<lambda>i col. False) 0 k"
  by (simp add: no_missing_cell_def list_all_iff)

lemma squad_short_names:
  "column_cells squad ''short_name'' = [Some ''L. Messi'', Some ''C. Ronaldo'', Some ''K. Mbappe'']"
  by (simp add: column_cells_def squad_def squad_rows)

lemma squad_long_names:
  "column_cells squad ''long_name'' =
     [Some ''Lionel Messi'', Some ''Cristiano Ronaldo'', Some ''Kylian Mbappe'']"
  by (simp add: column_cells_def squad_def squad_rows)

lemma squad_columns:
  "columns squad = [''short_name'', ''long_name'', ''movement_acceleration'', ''movement_sprint_speed'']"
  by (simp add: squad_def)

lemma no_short_names_cells:
  "columns no_short_names = [''short_name'', ''long_name'']"
  "column_cells no_short_names ''short_name'' = [None, None, None]"
  "column_cells no_short_names ''long_name'' =
     [Some ''Lionel Messi'', Some ''Cristiano Ronaldo'', Some ''Kylian Mbappe'']"
  by (simp_all add: column_cells_def no_short_names_def example_row_def)

lemma example_paren: "example_series_contains ''('' (Some s # cells) = None"
  by (simp add: example_series_contains_def)

lemma example_dot:
  "example_series_contains ''M.ssi'' [Some ''L. Messi'', Some ''C. Ronaldo'', Some ''K. Mbappe'']
     = Some [True, False, False]"
  by (simp add: example_series_contains_def lower_char_def)

lemma example_no_strings: "example_series_contains pat [None, None, None] = None"
  by (simp add: example_series_contains_def)

lemma substring_dot_short:
  "never_raising ci_contains ''M.ssi'' [Some ''L. Messi'', Some ''C. Ronaldo'', Some ''K. Mbappe'']
     = Some [False, False, False]"
  by (simp add: never_raising_def ci_contains_def lower_char_def)

lemma substring_dot_long:
  "never_raising ci_contains ''M.ssi''
     [Some ''Lionel Messi'', Some ''Cristiano Ronaldo'', Some ''Kylian Mbappe'']
     = Some [False, False, False]"
  by (simp add: never_raising_def ci_contains_def lower_char_def)

lemma substring_paren_short:
  "never_raising ci_contains ''('' [Some ''L. Messi'', Some ''C. Ronaldo'', Some ''K. Mbappe'']
     = Some [False, False, False]"
  by (simp add: never_raising_def ci_contains_def lower_char_def)

lemma substring_paren_long:
  "never_raising ci_contains ''(''
     [Some ''Lionel Messi'', Some ''Cristiano Ronaldo'', Some ''Kylian Mbappe'']
     = Some [False, False, False]"
  by (simp add: never_raising_def ci_contains_def lower_char_def)

lemma substring_messi_none:
  "never_raising ci_contains ''messi'' [None, None, None] = Some [False, False, False]"
  by (simp add: never_raising_def)

lemma substring_messi_long:
  "never_raising ci_contains ''messi''
     [Some ''Lionel Messi'', Some ''Cristiano Ronaldo'', Some ''Kylian Mbappe'']
     = Some [True, False, False]"
  by (simp add: never_raising_def ci_contains_def lower_char_def)

lemma example_an_short:
  "example_series_contains ''AN'' [Some ''L. Messi'', Some ''C. Ronaldo'', Some ''K. Mbappe'']
     = Some [False, False, False]"
  by (simp add: example_series_contains_def lower_char_def)

lemma example_an_long:
  "example_series_contains ''AN''
     [Some ''Lionel Messi'', Some ''Cristiano Ronaldo'', Some ''Kylian Mbappe'']
     = Some [False, True, True]"
  by (simp add: example_series_contains_def lower_char_def)

lemmas lookup_eval = find_player_outcome decides_def name_columns_def mask_any_def
  squad_columns squad_short_names squad_long_names no_short_names_cells

section \<open>The claims\<close>

subsection \<open>Claim C1: batch and single-record reduction\<close>

text \<open>
  Counterexample to claim C1 as stated: in a table whose only attribute column is
  skill_dribbling, a row with the value 90 is reduced to dribbling = 90 by the batch
  reducer (mean over the one column the table has) and to dribbling = 60 by the
  single-record reducer (mean of 90 and three defaults of 50). No cell is missing, and
  the reducers over cells that may be missing give the same two numbers.
\<close>

theorem C1_reducers_disagree:
  "create_style_dimensions_batch partial_table ! 0 = [50, 90, 50, 50, 50, 50]
   \<and> create_style_dimensions (to_dict partial_table (rows partial_table ! 0))
       = [50, 60, 50, 50, 50, 50]
   \<and> create_style_dimensions_batch partial_table ! 0
       \<noteq> create_style_dimensions (to_dict partial_table (rows partial_table ! 0))
   \<and> create_style_dimensions_batch_nan partial_table (\<lambda>i col. False) ! 0 ! 1 = Some 90
   \<and> create_style_dimensions_nan (to_dict_nan partial_table (\<lambda>i col. False) 0) ! 1 = Some 60"
  by (simp add: batch_nth partial_table_def style_dims_batch_def np_mean_def
      create_style_dimensions_def style_dims_def dict_get_def to_dict_def
      batch_nan_nth pandas_row_mean_def cell_def create_style_dimensions_nan_def
      to_dict_nan_def np_mean_nan_def)

text \<open>
  Claim C1, amended. For every table, with or without missing cells, and every row of it,
  the batch reducer and the single-record reducer agree on every dimension on which the
  table's schema agrees with the single-record reducer and the row has no missing cell in
  the dimension's columns, and the common value is a number; when that holds for all six
  dimensions, the two 6-vectors are equal. (A missing cell breaks the agreement: lemma
  \<open>missing_cell_disagreement\<close>.)
\<close>

theorem C1_agreement_without_missing_cells:
  "i < length (rows df) \<longrightarrow>
     (k < 6 \<and> schema_agrees df k \<and> no_missing_cell df missing i k \<longrightarrow>
        create_style_dimensions_batch_nan df missing ! i ! k =
        create_style_dimensions_nan (to_dict_nan df missing i) ! k
        \<and> create_style_dimensions_batch_nan df missing ! i ! k \<noteq> None)
     \<and> ((\<forall>k<6. schema_agrees df k \<and> no_missing_cell df missing i k) \<longrightarrow>
        create_style_dimensions_batch_nan df missing ! i =
        create_style_dimensions_nan (to_dict_nan df missing i))"
proof (intro impI conjI)
  assume i: "i < length (rows df)"
  {
    assume h: "k < 6 \<and> schema_agrees df k \<and> no_missing_cell df missing i k"
    then show "create_style_dimensions_batch_nan df missing ! i ! k =
               create_style_dimensions_nan (to_dict_nan df missing i) ! k"
      using i by (intro agreeing_dimension_nan) simp_all
    from h show "create_style_dimensions_batch_nan df missing ! i ! k \<noteq> None"
      using i by (intro agreeing_dimension_nan) simp_all
  }
  {
    assume all: "\<forall>k<6. schema_agrees df k \<and> no_missing_cell df missing i k"
    show "create_style_dimensions_batch_nan df missing ! i =
          create_style_dimensions_nan (to_dict_nan df missing i)"
    proof (rule nth_equalityI)
      show "length (create_style_dimensions_batch_nan df missing ! i) =
            length (create_style_dimensions_nan (to_dict_nan df missing i))"
        using i by (simp add: length_batch_nan_row length_single_nan)
    next
      fix j assume "j < length (create_style_dimensions_batch_nan df missing ! i)"
      then have j: "j < 6" using i by (simp add: length_batch_nan_row)
      with all have "schema_agrees df j" "no_missing_cell df missing i j" by simp_all
      with i j show "create_style_dimensions_batch_nan df missing ! i ! j =
                     create_style_dimensions_nan (to_dict_nan df missing i) ! j"
        by (intro agreeing_dimension_nan)
    qed
  }
qed

text \<open>
  The amended claim on a table that has exactly the four prefixed dribbling columns and no
  missing cell: both reducers give the same 6-vector for its row.
\<close>

theorem C1_agreement_without_missing_cells_witness:
  "create_style_dimensions_batch_nan dribbling_table (\<lambda>i col. False) ! 0 =
   create_style_dimensions_nan (to_dict_nan dribbling_table (\<lambda>i col. False) 0)
   \<and> create_style_dimensions_batch_nan dribbling_table (\<lambda>i col. False) ! 0 ! 1 = Some 82.5"
proof -
  have len: "0 < length (rows dribbling_table)"
    by (simp add: dribbling_table_def)
  have all: "\<forall>k<6. schema_agrees dribbling_table k
                \<and> no_missing_cell dribbling_table (\<lambda>i col. False) 0 k"
    by (simp add: schema_agrees_dribbling_table no_missing_dribbling_table)
  have val: "create_style_dimensions_batch_nan dribbling_table (\<lambda>i col. False) ! 0 ! 1 = Some 82.5"
    by (simp add: batch_nan_nth dribbling_table_def style_dims_batch_def pandas_row_mean_def
        cell_def np_mean_def)
  from C1_agreement_without_missing_cells [of 0 dribbling_table 1 "\<lambda>i col. False"] len all val
  show ?thesis by simp
qed

subsection \<open>Claim C2: the mean is over all candidates, absent ones counting as 50\<close>

text \<open>
  Counterexample to claim C2 as stated: with skill_dribbling = 90 as the only attribute,
  the code averages 90 with three defaults of 50 and yields 60 for the dribbling
  dimension, where skipping the absent candidates would give 90.
\<close>

theorem C2_absent_not_skipped:
  "create_style_dimensions lone_dribbler ! 1 = 60
   \<and> spec_reduce lone_dribbler ! 1 = 90
   \<and> create_style_dimensions lone_dribbler \<noteq> spec_reduce lone_dribbler"
  by (simp add: create_style_dimensions_def spec_reduce_def style_dims_def lone_dribbler_def
      np_mean_def dict_get_def)

text \<open>
  Claim C2, amended. For every record and each of the six dimensions, the value is the
  arithmetic mean over all of the dimension's candidate attributes in which every absent
  candidate counts as 50: (sum of the present values + 50 * number of absent candidates)
  / number of candidates. Hence it is the mean of the present values when every candidate
  is present, and exactly 50 when none is.
\<close>

theorem C2_mean_with_default:
  "k < length style_dims \<longrightarrow>
     create_style_dimensions attributes ! k =
       (sum_list (List.map_filter attributes (snd (style_dims ! k)))
          + 50 * real (length (filter (\<lambda>attr. attributes attr = None) (snd (style_dims ! k)))))
        / real (length (snd (style_dims ! k)))
     \<and> ((\<forall>attr \<in> set (snd (style_dims ! k)). attributes attr \<noteq> None) \<longrightarrow>
          create_style_dimensions attributes ! k =
            np_mean (List.map_filter attributes (snd (style_dims ! k))))
     \<and> ((\<forall>attr \<in> set (snd (style_dims ! k)). attributes attr = None) \<longrightarrow>
          create_style_dimensions attributes ! k = 50)"
proof (intro impI conjI)
  assume k: "k < length style_dims"
  let ?attrs = "snd (style_dims ! k)"
  have ne: "?attrs \<noteq> []" using k by (rule style_dims_nonempty)
  show formula: "create_style_dimensions attributes ! k =
       (sum_list (List.map_filter attributes ?attrs)
          + 50 * real (length (filter (\<lambda>attr. attributes attr = None) ?attrs)))
        / real (length ?attrs)"
    using k by (simp add: create_style_dimensions_nth np_mean_def sum_list_dict_get)
  {
    assume all: "\<forall>attr \<in> set ?attrs. attributes attr \<noteq> None"
    then have f: "filter (\<lambda>attr. attributes attr = None) ?attrs = []"
      by (simp add: filter_empty_conv)
    have l: "length (List.map_filter attributes ?attrs) = length ?attrs"
      using all by (rule map_filter_all_present)
    show "create_style_dimensions attributes ! k = np_mean (List.map_filter attributes ?attrs)"
      by (simp add: formula f np_mean_def l)
  }
  {
    assume none: "\<forall>attr \<in> set ?attrs. attributes attr = None"
    then have f: "filter (\<lambda>attr. attributes attr = None) ?attrs = ?attrs"
      by simp
    have m: "List.map_filter attributes ?attrs = []"
      using none by (rule map_filter_none_present)
    show "create_style_dimensions attributes ! k = 50"
      using ne by (simp add: formula f m)
  }
qed

text \<open>
  The amended claim at three inputs: one candidate of four present (dribbling of the lone
  dribbler), all four present (dribbling of the scenario record of C9), none present (pace
  of the lone dribbler).
\<close>

theorem C2_mean_with_default_witness:
  "create_style_dimensions lone_dribbler ! 1 = (90 + 50 * 3) / 4
   \<and> create_style_dimensions dribbling_record ! 1 = np_mean [90, 85, 80, 75]
   \<and> create_style_dimensions lone_dribbler ! 0 = 50"
  using C2_mean_with_default [of 1 lone_dribbler]
    C2_mean_with_default [of 1 dribbling_record]
    C2_mean_with_default [of 0 lone_dribbler]
  by (simp add: style_dims_def lone_dribbler_def dribbling_record_def)

subsection \<open>Claim C3: loading does not compare the label map with the model\<close>

text \<open>
  Counterexample to claim C3 as stated: with a label map of 5 entries and a model of 6
  centroids, loading raises nothing and stores all four artifacts, and the health check
  reports the models as loaded.
\<close>

theorem C3_mismatch_loads:
  "length five_labels = 5
   \<and> length (cluster_centers six_centroids) = 6
   \<and> load_models mismatched_files initial_state =
       (None, \<lparr>scaler = Some example_scaler, kmeans = Some six_centroids,
                cluster_labels = Some five_labels, player_data = Some squad\<rparr>)
   \<and> models_loaded (snd (load_models mismatched_files initial_state))"
  by (simp add: five_labels_def six_centroids_def load_models_def mismatched_files_def
      initial_state_def models_loaded_def)

text \<open>
  Claim C3, amended. Loading compares nothing: when all four artifacts can be read, it
  raises nothing and stores them as read, whatever the number of labels and of centroids;
  it raises exactly when one of the four reads raises.
\<close>

theorem C3_load_fails_only_on_unreadable_artifact:
  "(scaler_pkl files = Loaded sc \<and> kmeans_pkl files = Loaded km
      \<and> cluster_labels_json files = Loaded labels \<and> fc26_csv files = Loaded table
    \<longrightarrow> load_models files g =
          (None, \<lparr>scaler = Some sc, kmeans = Some km,
                   cluster_labels = Some labels, player_data = Some table\<rparr>))
   \<and> (fst (load_models files g) \<noteq> None \<longleftrightarrow>
        (\<nexists>sc. scaler_pkl files = Loaded sc) \<or> (\<nexists>km. kmeans_pkl files = Loaded km)
        \<or> (\<nexists>labels. cluster_labels_json files = Loaded labels)
        \<or> (\<nexists>table. fc26_csv files = Loaded table))"
proof (rule conjI)
  show "scaler_pkl files = Loaded sc \<and> kmeans_pkl files = Loaded km
      \<and> cluster_labels_json files = Loaded labels \<and> fc26_csv files = Loaded table
    \<longrightarrow> load_models files g =
          (None, \<lparr>scaler = Some sc, kmeans = Some km,
                   cluster_labels = Some labels, player_data = Some table\<rparr>)"
    by (cases g) (simp add: load_models_def)
next
  show "fst (load_models files g) \<noteq> None \<longleftrightarrow>
        (\<nexists>sc. scaler_pkl files = Loaded sc) \<or> (\<nexists>km. kmeans_pkl files = Loaded km)
        \<or> (\<nexists>labels. cluster_labels_json files = Loaded labels)
        \<or> (\<nexists>table. fc26_csv files = Loaded table)"
    by (cases "scaler_pkl files"; cases "kmeans_pkl files";
        cases "cluster_labels_json files"; cases "fc26_csv files")
      (simp_all add: load_models_def)
qed

text \<open>
  The amended claim on the mismatched artifacts (loaded) and on a set of artifacts whose
  label file is absent (startup fails).
\<close>

theorem C3_load_fails_only_on_unreadable_artifact_witness:
  "load_models mismatched_files initial_state =
     (None, \<lparr>scaler = Some example_scaler, kmeans = Some six_centroids,
              cluster_labels = Some five_labels, player_data = Some squad\<rparr>)
   \<and> fst (load_models labels_missing initial_state) \<noteq> None"
  using C3_load_fails_only_on_unreadable_artifact [where files = mismatched_files
      and g = initial_state and sc = example_scaler and km = six_centroids
      and labels = five_labels and table = squad]
    C3_load_fails_only_on_unreadable_artifact [where files = labels_missing
      and g = initial_state]
  by (simp add: mismatched_files_def labels_missing_def)

subsection \<open>Claim C4: the matched player can be among the results\<close>

text \<open>
  Claim C4, on the code. The query \<open>beta\<close> on the twins table matches the row Beta only,
  and the result names Beta itself: Alpha, at the same distance 0, is sorted first and is
  the one dropped. The query \<open>ada\<close> on the dribblers table matches the row Ada only, and
  the result names Ada itself: her single-record vector is at distance 0 from Bo's batch
  vector and at distance 3 from her own, so Bo is the one dropped.
\<close>

theorem C4_matched_player_returned:
  "masked_rows twins (str_contains ci_contains twins ''short_name'' ''beta'') = [twin_b]
   \<and> str twin_b ''short_name'' = Some ''Beta''
   \<and> find_similar_players ci_contains example_scaler twins \<lparr>player_name = ''beta'', top_n = 2\<rparr>
       = Inr [Some ''Beta'', Some ''Gamma'']
   \<and> masked_rows dribblers (str_contains ci_contains dribblers ''short_name'' ''ada'') = [ada]
   \<and> str ada ''short_name'' = Some ''Ada''
   \<and> find_similar_players ci_contains example_scaler dribblers
         \<lparr>player_name = ''ada'', top_n = 2\<rparr>
       = Inr [Some ''Cy'', Some ''Ada'']"
  using find_similar_players_cases [where contains = ci_contains and df = twins
      and request = "\<lparr>player_name = ''beta'', top_n = 2\<rparr>" and sc = example_scaler]
    find_similar_players_cases [where contains = ci_contains and df = dribblers
      and request = "\<lparr>player_name = ''ada'', top_n = 2\<rparr>" and sc = example_scaler]
  by (simp add: twins_lookup twins_masked twins_distances twins_indices twins_names
      dribblers_lookup dribblers_masked dribblers_distances dribblers_indices dribblers_names)

subsection \<open>Claim C5: length and order of the result\<close>

text \<open>
  Claim C5. When a similarity query with a requested count \<open>top_n\<close> of at least 0 succeeds
  on a table of N rows, the returned list has exactly min(top_n, N - 1) entries. They are
  the names, in order, of the rows at the indices \<open>similar_indices\<close>, and along these
  indices the distances are in non-decreasing order, each distance being the Euclidean
  distance between the scaled 6-vector of the row (batch reducer) and the scaled 6-vector
  of the matched player (single-record reducer). A request that passed validation has a
  \<open>top_n\<close> from 1 to 20, so this covers every query the endpoint answers.
\<close>

theorem C5_result_length_and_order:
  "(validate_similar_player_request raw = Inr request \<longrightarrow>
      1 \<le> top_n request \<and> top_n request \<le> 20)
   \<and> (find_similar_players contains sc df request = Inr names \<and> 0 \<le> top_n request \<longrightarrow>
     length names = min (nat (top_n request)) (length (rows df) - 1)
     \<and> (\<exists>player_row distances name_col player_scaled all_scaled.
           player_row \<in> set (rows df)
           \<and> player_distances sc df player_row = Some distances
           \<and> transform sc (create_style_dimensions (to_dict df player_row)) = Some player_scaled
           \<and> those (map (transform sc) (create_style_dimensions_batch df)) = Some all_scaled
           \<and> distances = map (\<lambda>v. sqrt (\<Sum>(x, y)\<leftarrow>zip v player_scaled. (x - y)\<^sup>2)) all_scaled
           \<and> length distances = length (rows df)
           \<and> names = map (\<lambda>i. str (rows df ! i) name_col)
                        (similar_indices distances (top_n request))
           \<and> sorted (map (\<lambda>i. distances ! i) (similar_indices distances (top_n request)))))"
  (is "?V \<and> (?P \<longrightarrow> ?Q)")
proof (rule conjI)
  show "?V" by (auto dest: validated_top_n)
next
  show "?P \<longrightarrow> ?Q"
  proof (rule impI)
    assume a: "find_similar_players contains sc df request = Inr names \<and> 0 \<le> top_n request"
    let ?q = "player_name request"
    from a have ok: "find_similar_players contains sc df request = Inr names"
      and n: "0 \<le> top_n request" by simp_all
    have "\<exists>c. find (column_matches contains df ?q) name_columns = Some c"
    proof (cases "find (column_matches contains df ?q) name_columns")
      case None
      with find_similar_players_cases [where contains = contains and df = df
          and request = request and sc = sc] ok
      show ?thesis by simp
    next
      case (Some c)
      then show ?thesis by simp
    qed
    then obtain c where c: "find (column_matches contains df ?q) name_columns = Some c" ..
    with find_similar_players_cases [where contains = contains and df = df
        and request = request and sc = sc]
    obtain player_row others
      where m: "masked_rows df (str_contains contains df c ?q) = player_row # others"
        and f: "find_similar_players contains sc df request =
                  (case player_distances sc df player_row of
                     None \<Rightarrow> Inl HTTP_500
                   | Some distances \<Rightarrow>
                       Inr (map (\<lambda>i. str (rows df ! i) c)
                              (similar_indices distances (top_n request))))"
      by auto
    from f ok obtain distances
      where d: "player_distances sc df player_row = Some distances"
        and names: "names = map (\<lambda>i. str (rows df ! i) c)
                              (similar_indices distances (top_n request))"
      by (auto split: option.splits)
    have len: "length distances = length (rows df)"
      using d by (rule length_player_distances)
    have mem: "player_row \<in> set (rows df)"
      using m masked_rows_subset [of df "str_contains contains df c ?q"] by auto
    from player_distances_euclidean [OF d] obtain player_scaled all_scaled
      where e: "transform sc (create_style_dimensions (to_dict df player_row)) = Some player_scaled"
        "those (map (transform sc) (create_style_dimensions_batch df)) = Some all_scaled"
        "distances = map (\<lambda>v. sqrt (\<Sum>(x, y)\<leftarrow>zip v player_scaled. (x - y)\<^sup>2)) all_scaled"
      by blast
    have l: "length names = min (nat (top_n request)) (length (rows df) - 1)"
      using n by (simp add: names length_similar_indices len)
    have s: "sorted (map (\<lambda>i. distances ! i) (similar_indices distances (top_n request)))"
      by (rule sorted_similar_indices)
    from l mem d e len names s
    show ?Q
      by blast
  qed
qed

text \<open>
  The claim on the example table of three players: with \<open>top_n = 5\<close> the query returns
  min(5, 3 - 1) = 2 names.
\<close>

theorem C5_result_length_and_order_witness:
  "find_similar_players ci_contains example_scaler squad \<lparr>player_name = ''AN'', top_n = 5\<rparr>
     = Inr [Some ''Kylian Mbappe'', Some ''Lionel Messi'']
   \<and> length [Some ''Kylian Mbappe'', Some ''Lionel Messi''] = min (nat 5) (length (rows squad) - 1)
   \<and> sorted (map (\<lambda>i. [1, 0, 3 / 5 :: real] ! i) (similar_indices [1, 0, 3 / 5] 5))"
  using C5_result_length_and_order [where contains = ci_contains and sc = example_scaler
      and df = squad and request = "\<lparr>player_name = ''AN'', top_n = 5\<rparr>"
      and raw = "\<lparr>raw_player_name = Some ''AN'', raw_top_n = Some 5\<rparr>"
      and names = "[Some ''Kylian Mbappe'', Some ''Lionel Messi'']"]
    squad_query_top_5 sorted_similar_indices [of "[1, 0, 3 / 5]" 5]
  by (simp add: squad_names)

subsection \<open>Claim C6: the query is read as a pattern\<close>

text \<open>
  Claim C6, on the code. The columns are tried in the order short_name, name, long_name,
  player_name, and the first that decides the lookup is used (lemma \<open>find_player_outcome\<close>);
  but the test of a cell is the library's, which reads the query as a regular expression,
  and the call can raise. On the example table of three players, with the example of the
  library method: the query \<open>AN\<close>, matched by two long names and no short name, is found
  in the long-name column; the query \<open>(\<close> is answered with 500, where a substring test finds no
  match and gives 404; the query \<open>M.ssi\<close> finds L. Messi in the short-name column, where
  a substring test gives 404. On the table whose short-name column holds no string, the
  query \<open>messi\<close> is answered with 500, where a substring test falls through to the
  long-name column and finds Lionel Messi.
\<close>

theorem C6_query_read_as_pattern:
  "find_player example_series_contains squad ''AN'' = Inr ([False, True, True], ''long_name'')
   \<and> find_player example_series_contains squad ''('' = Inl HTTP_500
   \<and> find_player (never_raising ci_contains) squad ''('' = Inl (HTTP_404 (not_found_detail ''(''))
   \<and> find_player example_series_contains squad ''M.ssi'' = Inr ([True, False, False], ''short_name'')
   \<and> find_player (never_raising ci_contains) squad ''M.ssi''
       = Inl (HTTP_404 (not_found_detail ''M.ssi''))
   \<and> find_player example_series_contains no_short_names ''messi'' = Inl HTTP_500
   \<and> find_player (never_raising ci_contains) no_short_names ''messi''
       = Inr ([True, False, False], ''long_name'')"
  by (simp add: lookup_eval example_an_short example_an_long
      example_paren example_dot example_no_strings
      substring_dot_short substring_dot_long substring_paren_short substring_paren_long
      substring_messi_none substring_messi_long)

subsection \<open>Claim C7: zero-variance columns\<close>

text \<open>
  Claim C7. For a training matrix with at least one row and \<open>d\<close> columns, fitting and then
  transforming the matrix is defined, and no scale of the fitted state is 0. A column of
  standard deviation 0 has the scale 1, so its transformed values are the centred values;
  every other column has, after the transform, mean 0 and standard deviation 1.
\<close>

theorem C7_zero_variance_scale_one:
  "M \<noteq> [] \<and> (\<forall>r \<in> set M. length r = d) \<and> j < d \<longrightarrow>
     (\<exists>T. transform_matrix (fit M) M = Some T
        \<and> scaler_scale (fit M) ! j \<noteq> 0
        \<and> (column_std (matrix_column M j) = 0 \<longrightarrow>
             scaler_scale (fit M) ! j = 1
             \<and> matrix_column T j =
                 map (\<lambda>x. x - np_mean (matrix_column M j)) (matrix_column M j))
        \<and> (column_std (matrix_column M j) \<noteq> 0 \<longrightarrow>
             np_mean (matrix_column T j) = 0 \<and> column_std (matrix_column T j) = 1))"
proof (rule impI)
  assume a: "M \<noteq> [] \<and> (\<forall>r \<in> set M. length r = d) \<and> j < d"
  then have ne: "M \<noteq> []" and len: "\<forall>r \<in> set M. length r = d" and j: "j < d"
    by simp_all
  let ?xs = "matrix_column M j"
  let ?s = "scaler_scale (fit M) ! j"
  have n: "n_features M = d" using ne len by (rule n_features_uniform)
  have xs: "?xs \<noteq> []" using ne by (simp add: matrix_column_def)
  have s: "?s = (if column_std ?xs = 0 then 1 else column_std ?xs)"
    using j by (simp add: fit_def n Let_def)
  obtain T where T: "transform_matrix (fit M) M = Some T"
    using transform_matrix_fit [OF ne len] by blast
  have col: "matrix_column T j = map (\<lambda>x. (x - np_mean ?xs) / ?s) ?xs"
    using ne len j T by (rule transformed_column)
  have nz: "?s \<noteq> 0" by (simp add: s)
  have zero: "column_std ?xs = 0 \<longrightarrow>
      ?s = 1 \<and> matrix_column T j = map (\<lambda>x. x - np_mean ?xs) ?xs"
    by (simp add: col s)
  have nonzero: "column_std ?xs \<noteq> 0 \<longrightarrow>
      np_mean (matrix_column T j) = 0 \<and> column_std (matrix_column T j) = 1"
  proof (rule impI)
    assume p: "column_std ?xs \<noteq> 0"
    then have pos: "0 < column_std ?xs"
      using column_std_nonneg [of ?xs] by simp
    from p have se: "?s = column_std ?xs" by (simp add: s)
    have "np_mean (matrix_column T j) = 0"
      unfolding col using xs by (simp add: np_mean_affine)
    moreover have "column_std (matrix_column T j) = 1"
      unfolding col se using xs pos by (simp add: column_std_affine)
    ultimately show "np_mean (matrix_column T j) = 0 \<and> column_std (matrix_column T j) = 1"
      by simp
  qed
  from T nz zero nonzero
  show "\<exists>T. transform_matrix (fit M) M = Some T
        \<and> ?s \<noteq> 0
        \<and> (column_std ?xs = 0 \<longrightarrow>
             ?s = 1 \<and> matrix_column T j = map (\<lambda>x. x - np_mean ?xs) ?xs)
        \<and> (column_std ?xs \<noteq> 0 \<longrightarrow>
             np_mean (matrix_column T j) = 0 \<and> column_std (matrix_column T j) = 1)"
    by blast
qed

text \<open>
  The claim on a matrix of two rows whose second column is constant: the second column
  (standard deviation 0, scale 1) is centred to 0, the first is standardised.
\<close>

theorem C7_zero_variance_scale_one_witness:
  "column_std (matrix_column constant_second_column 1) = 0
   \<and> scaler_scale (fit constant_second_column) ! 1 = 1
   \<and> transform_matrix (fit constant_second_column) constant_second_column
       = Some [[- 1, 0], [1, 0]]
   \<and> matrix_column [[- 1, 0], [1, 0]] 1
       = map (\<lambda>x. x - np_mean (matrix_column constant_second_column 1))
           (matrix_column constant_second_column 1)
   \<and> np_mean (matrix_column [[- 1, 0], [1, 0]] 0) = 0
   \<and> column_std (matrix_column [[- 1, 0], [1, 0]] 0) = 1"
proof -
  have h: "constant_second_column \<noteq> [] \<and> (\<forall>r \<in> set constant_second_column. length r = 2)"
    by (simp add: constant_second_column_def)
  have z: "column_std (matrix_column constant_second_column 1) = 0"
    "column_std (matrix_column constant_second_column 0) \<noteq> 0"
    by (simp_all add: constant_second_column_def matrix_column_def column_std_def np_mean_def)
  from C7_zero_variance_scale_one [of constant_second_column 2 1]
    C7_zero_variance_scale_one [of constant_second_column 2 0]
    h z transform_constant_second_column
  show ?thesis by simp
qed

subsection \<open>Claim C8: nearest centroid, lowest index on ties\<close>

text \<open>
  Claim C8. For a model with at least one centroid, \<open>predict\<close> returns an index \<open>i\<close> of a
  centroid such that no centroid is nearer to the input than centroid \<open>i\<close> and every
  centroid of a lower index is strictly farther; there is only one such index, so the
  prediction is determined by the model and the input alone.
\<close>

theorem C8_nearest_centroid_lowest_index:
  "cluster_centers km \<noteq> [] \<longrightarrow>
     (\<exists>i. predict km x = Some i
        \<and> i < length (cluster_centers km)
        \<and> (\<forall>j < length (cluster_centers km).
              euclidean x (cluster_centers km ! i) \<le> euclidean x (cluster_centers km ! j))
        \<and> (\<forall>j < i.
              euclidean x (cluster_centers km ! i) < euclidean x (cluster_centers km ! j))
        \<and> (\<forall>i' < length (cluster_centers km).
              (\<forall>j < length (cluster_centers km).
                  euclidean x (cluster_centers km ! i') \<le> euclidean x (cluster_centers km ! j))
              \<and> (\<forall>j < i'.
                  euclidean x (cluster_centers km ! i') < euclidean x (cluster_centers km ! j))
              \<longrightarrow> i' = i))"
proof (rule impI)
  assume ne: "cluster_centers km \<noteq> []"
  let ?cs = "cluster_centers km"
  let ?ds = "map (euclidean x) ?cs"
  from ne obtain d ds where ds: "?ds = d # ds" by (cases ?cs) auto
  let ?i = "first_min ds 0 d 1"
  have p: "predict km x = Some ?i" by (simp add: predict_def ds)
  note fm = first_min_correct [of ds d, folded ds]
  from fm have f1: "?i < length ?ds" by (rule conjunct1)
  from fm have f2: "\<forall>j < length ?ds. ?ds ! ?i \<le> ?ds ! j" by blast
  from fm have f3: "\<forall>j < ?i. ?ds ! ?i < ?ds ! j" by blast
  have i: "?i < length ?cs" using f1 by simp
  have nm: "?ds ! j = euclidean x (?cs ! j)" if "j < length ?cs" for j
    using that by (rule nth_map)
  have least': "\<forall>j < length ?cs. euclidean x (?cs ! ?i) \<le> euclidean x (?cs ! j)"
  proof (intro allI impI)
    fix j assume j: "j < length ?cs"
    with f2 have "?ds ! ?i \<le> ?ds ! j" by simp
    then show "euclidean x (?cs ! ?i) \<le> euclidean x (?cs ! j)"
      unfolding nm [OF i] nm [OF j] .
  qed
  have first': "\<forall>j < ?i. euclidean x (?cs ! ?i) < euclidean x (?cs ! j)"
  proof (intro allI impI)
    fix j assume j: "j < ?i"
    from j i have jl: "j < length ?cs" by simp
    from f3 j have "?ds ! ?i < ?ds ! j" by blast
    then show "euclidean x (?cs ! ?i) < euclidean x (?cs ! j)"
      unfolding nm [OF i] nm [OF jl] .
  qed
  have unique: "\<forall>i' < length ?cs.
      (\<forall>j < length ?cs. euclidean x (?cs ! i') \<le> euclidean x (?cs ! j))
      \<and> (\<forall>j < i'. euclidean x (?cs ! i') < euclidean x (?cs ! j))
      \<longrightarrow> i' = ?i"
  proof (intro allI impI)
    fix i' assume i': "i' < length ?cs"
      and h: "(\<forall>j < length ?cs. euclidean x (?cs ! i') \<le> euclidean x (?cs ! j))
              \<and> (\<forall>j < i'. euclidean x (?cs ! i') < euclidean x (?cs ! j))"
    show "i' = ?i"
    proof (rule ccontr)
      assume "i' \<noteq> ?i"
      then consider "i' < ?i" | "?i < i'" by linarith
      then show False
      proof cases
        case 1
        with first' have "euclidean x (?cs ! ?i) < euclidean x (?cs ! i')" by simp
        moreover from h i have "euclidean x (?cs ! i') \<le> euclidean x (?cs ! ?i)" by simp
        ultimately show False by simp
      next
        case 2
        with h have "euclidean x (?cs ! i') < euclidean x (?cs ! ?i)" by simp
        moreover from least' i' have "euclidean x (?cs ! ?i) \<le> euclidean x (?cs ! i')" by simp
        ultimately show False by simp
      qed
    qed
  qed
  from p i least' first' unique
  show "\<exists>i. predict km x = Some i
        \<and> i < length ?cs
        \<and> (\<forall>j < length ?cs. euclidean x (?cs ! i) \<le> euclidean x (?cs ! j))
        \<and> (\<forall>j < i. euclidean x (?cs ! i) < euclidean x (?cs ! j))
        \<and> (\<forall>i' < length ?cs.
              (\<forall>j < length ?cs. euclidean x (?cs ! i') \<le> euclidean x (?cs ! j))
              \<and> (\<forall>j < i'. euclidean x (?cs ! i') < euclidean x (?cs ! j))
              \<longrightarrow> i' = i)"
    by blast
qed

text \<open>
  The claim on the model of six centroids: the input \<open>(1/2, 1/2, 0, 0, 0, 0)\<close> is equally
  near to the centroids 0, 1 and 2, and the prediction is 0.
\<close>

theorem C8_nearest_centroid_lowest_index_witness:
  "predict six_centroids [1 / 2, 1 / 2, 0, 0, 0, 0] = Some 0
   \<and> euclidean [1 / 2, 1 / 2, 0, 0, 0, 0] (cluster_centers six_centroids ! 0)
       = euclidean [1 / 2, 1 / 2, 0, 0, 0, 0] (cluster_centers six_centroids ! 1)
   \<and> euclidean [1 / 2, 1 / 2, 0, 0, 0, 0] (cluster_centers six_centroids ! 0)
       = euclidean [1 / 2, 1 / 2, 0, 0, 0, 0] (cluster_centers six_centroids ! 2)"
proof -
  have ne: "cluster_centers six_centroids \<noteq> []"
    by (simp add: six_centroids_def)
  have p: "predict six_centroids [1 / 2, 1 / 2, 0, 0, 0, 0] = Some 0"
    by (simp add: predict_def six_centroids_def euclidean_def l2_norm_def power2_eq_square)
  have e: "euclidean [1 / 2, 1 / 2, 0, 0, 0, 0] (cluster_centers six_centroids ! 0)
             = euclidean [1 / 2, 1 / 2, 0, 0, 0, 0] (cluster_centers six_centroids ! 1)"
    "euclidean [1 / 2, 1 / 2, 0, 0, 0, 0] (cluster_centers six_centroids ! 0)
             = euclidean [1 / 2, 1 / 2, 0, 0, 0, 0] (cluster_centers six_centroids ! 2)"
    by (simp_all add: six_centroids_def euclidean_def l2_norm_def power2_eq_square)
  from C8_nearest_centroid_lowest_index [of six_centroids "[1 / 2, 1 / 2, 0, 0, 0, 0]"] ne p e
  show ?thesis by simp
qed

subsection \<open>Claim C9: the dribbling scenario\<close>

text \<open>
  Claim C9. For the record holding exactly skill_dribbling = 90, skill_ball_control = 85,
  movement_agility = 80 and movement_balance = 75, the single-record reducer yields the
  dribbling dimension 82.5 and exactly 50 for each of the other five dimensions, in the
  order pace, dribbling, creativity, finishing, defense, physicality.
\<close>

theorem C9_dribbling_scenario:
  "create_style_dimensions dribbling_record = [50, 82.5, 50, 50, 50, 50]
   \<and> map fst style_dims =
       [''pace'', ''dribbling'', ''creativity'', ''finishing'', ''defense'', ''physicality'']
   \<and> dom dribbling_record =
       {''skill_dribbling'', ''skill_ball_control'', ''movement_agility'', ''movement_balance''}"
  by (simp add: create_style_dimensions_def style_dims_def dribbling_record_def
      np_mean_def dict_get_def dom_def) auto

subsection \<open>Claim C10: the bounds on \<open>top_n\<close> are checked before the handler runs\<close>

text \<open>
  Claim C10. A request whose \<open>top_n\<close> is below 1 or above 20 fails validation with an error
  for the field \<open>top_n\<close>, and the endpoint answers 422 with the validation errors whatever
  the table, the scaler and the matcher are: the handler, with its lookup and distance
  computation, is not run. A \<open>top_n\<close> from 1 to 20 passes the check of the field, and with a
  non-empty player name the request is accepted and handed to the handler unchanged.
\<close>

theorem C10_top_n_bounds_checked_first:
  "(raw_top_n raw = Some n \<and> (n < 1 \<or> 20 < n) \<longrightarrow>
      (\<exists>errs. validate_similar_player_request raw = Inl errs
          \<and> (Below_minimum ''top_n'' \<in> set errs \<or> Above_maximum ''top_n'' \<in> set errs)
          \<and> similar_players_endpoint contains sc df raw = Inl (HTTP_422 errs)))
   \<and> (raw_top_n raw = Some n \<and> 1 \<le> n \<and> n \<le> 20 \<longrightarrow>
        check_top_n (raw_top_n raw) = Inr n
        \<and> (raw_player_name raw = Some s \<and> s \<noteq> [] \<longrightarrow>
             validate_similar_player_request raw = Inr \<lparr>player_name = s, top_n = n\<rparr>
             \<and> similar_players_endpoint contains sc df raw =
                 find_similar_players contains sc df \<lparr>player_name = s, top_n = n\<rparr>))"
proof (intro conjI impI)
  assume bad: "raw_top_n raw = Some n \<and> (n < 1 \<or> 20 < n)"
  then have t: "check_top_n (raw_top_n raw) =
                  Inl (if n < 1 then Below_minimum ''top_n'' else Above_maximum ''top_n'')"
    by (auto simp: check_top_n_def)
  obtain errs where v: "validate_similar_player_request raw = Inl errs"
    and m: "(if n < 1 then Below_minimum ''top_n'' else Above_maximum ''top_n'') \<in> set errs"
    using t by (cases "check_player_name (raw_player_name raw)")
      (auto simp: validate_similar_player_request_def field_errors_def)
  have "similar_players_endpoint contains sc df raw = Inl (HTTP_422 errs)"
    by (simp add: similar_players_endpoint_def v)
  with v m show "\<exists>errs. validate_similar_player_request raw = Inl errs
          \<and> (Below_minimum ''top_n'' \<in> set errs \<or> Above_maximum ''top_n'' \<in> set errs)
          \<and> similar_players_endpoint contains sc df raw = Inl (HTTP_422 errs)"
    by (cases "n < 1") auto
next
  assume good: "raw_top_n raw = Some n \<and> 1 \<le> n \<and> n \<le> 20"
  then show t: "check_top_n (raw_top_n raw) = Inr n"
    by (simp add: check_top_n_def)
  assume name: "raw_player_name raw = Some s \<and> s \<noteq> []"
  then have "check_player_name (raw_player_name raw) = Inr s"
    by (cases s) (simp_all add: check_player_name_def)
  with t show v: "validate_similar_player_request raw = Inr \<lparr>player_name = s, top_n = n\<rparr>"
    by (simp add: validate_similar_player_request_def)
  show "similar_players_endpoint contains sc df raw =
          find_similar_players contains sc df \<lparr>player_name = s, top_n = n\<rparr>"
    by (simp add: similar_players_endpoint_def v)
qed

text \<open>
  The claim at \<open>top_n = 21\<close> and \<open>top_n = 0\<close> (rejected before the handler sees the example table)
  and at \<open>top_n = 20\<close> (accepted).
\<close>

theorem C10_top_n_bounds_checked_first_witness:
  "similar_players_endpoint ci_contains example_scaler squad too_many =
     Inl (HTTP_422 [Above_maximum ''top_n''])
   \<and> similar_players_endpoint ci_contains example_scaler squad too_few =
     Inl (HTTP_422 [Below_minimum ''top_n''])
   \<and> validate_similar_player_request twenty = Inr \<lparr>player_name = ''Messi'', top_n = 20\<rparr>"
  using C10_top_n_bounds_checked_first [where raw = too_many and n = 21
      and contains = ci_contains and sc = example_scaler and df = squad]
    C10_top_n_bounds_checked_first [where raw = too_few and n = 0
      and contains = ci_contains and sc = example_scaler and df = squad]
    C10_top_n_bounds_checked_first [where raw = twenty and n = 20 and s = "''Messi''"]
  by (auto simp: too_many_def too_few_def twenty_def validate_similar_player_request_def
      check_player_name_def check_top_n_def field_errors_def)

end

